theory Spec2Isabelle
  imports Complex_Main "HOL-Library.AList"
begin

section \<open>The audit ledger (api-server/models.py)\<close>

text \<open>
  The ledger is an SQLite database with a \<open>servers\<close> table and a \<open>deployments\<close> table.
  A table is the list of its rows in insertion order. Timestamps are the TEXT produced by
  \<open>datetime.now().isoformat()\<close>; such texts compare as the instants they denote, so a
  timestamp is modelled as the instant itself, an integer count of microseconds.
  A column that may hold NULL has an option type.
\<close>

type_synonym timestamp = int

record server_row =
  server_id :: string
  description :: "string option"
  first_seen :: timestamp
  last_seen :: timestamp
  deployment_count :: int
  last_success :: "timestamp option"
  is_active :: int

record deployment_row =
  deployment_id :: nat
  dep_server_id :: string
  dep_action :: string
  dep_rules_count :: int
  dep_decoders_count :: int
  dep_success :: int
  dep_error_message :: string
  dep_package_size :: int
  dep_client_ip :: string
  dep_timestamp :: timestamp

record db =
  servers :: "server_row list"
  deployments :: "deployment_row list"

text \<open>\<open>init_db\<close> on a fresh database file: both tables exist and are empty.\<close>

definition init_db :: db where
  "init_db = \<lparr>servers = [], deployments = []\<rparr>"

text \<open>
  The arguments of one call of \<open>log_deployment\<close>, together with the value that
  \<open>datetime.now()\<close> returns during the call.
\<close>

record log_call =
  arg_server_id :: string
  arg_action :: string
  arg_rules_count :: int
  arg_decoders_count :: int
  arg_success :: bool
  arg_error_message :: string
  arg_package_size :: int
  arg_client_ip :: string
  arg_now :: timestamp

text \<open>Python's \<open>int(success)\<close> for a \<open>bool\<close>.\<close>

definition int_of_bool :: "bool \<Rightarrow> int" where
  "int_of_bool b = (if b then 1 else 0)"

text \<open>
  \<open>INSERT INTO deployments ...\<close>. The \<open>uuid4\<close> deployment id is modelled as a fresh
  value: the number of rows already in the table.
\<close>

definition insert_deployment :: "log_call \<Rightarrow> db \<Rightarrow> nat \<times> db" where
  "insert_deployment c d =
     (let i = length (deployments d) in
      (i, d\<lparr>deployments := deployments d @
            [\<lparr>deployment_id = i,
              dep_server_id = arg_server_id c,
              dep_action = arg_action c,
              dep_rules_count = arg_rules_count c,
              dep_decoders_count = arg_decoders_count c,
              dep_success = int_of_bool (arg_success c),
              dep_error_message = arg_error_message c,
              dep_package_size = arg_package_size c,
              dep_client_ip = arg_client_ip c,
              dep_timestamp = arg_now c\<rparr>]\<rparr>))"

text \<open>
  \<open>UPDATE servers SET last_seen = ?, deployment_count = deployment_count + 1,
  last_success = CASE WHEN ? = 1 THEN ? ELSE last_success END WHERE server_id = ?\<close>
\<close>

definition update_server_row :: "timestamp \<Rightarrow> int \<Rightarrow> string \<Rightarrow> server_row \<Rightarrow> server_row" where
  "update_server_row ts succ sid r =
     (if server_id r = sid
      then r\<lparr>last_seen := ts,
             deployment_count := deployment_count r + 1,
             last_success := (if succ = 1 then Some ts else last_success r)\<rparr>
      else r)"

definition update_server_stats :: "timestamp \<Rightarrow> int \<Rightarrow> string \<Rightarrow> db \<Rightarrow> db" where
  "update_server_stats ts succ sid d =
     d\<lparr>servers := map (update_server_row ts succ sid) (servers d)\<rparr>"

text \<open>\<open>SELECT 1 FROM servers WHERE server_id = ?\<close> followed by \<open>fetchone()\<close>.\<close>

definition select_server :: "string \<Rightarrow> db \<Rightarrow> server_row option" where
  "select_server sid d = find (\<lambda>r. server_id r = sid) (servers d)"

text \<open>
  \<open>INSERT INTO servers (server_id, first_seen, last_seen, deployment_count)
  VALUES (?, ?, ?, 1)\<close>; the other columns take their defaults.
\<close>

definition insert_server :: "string \<Rightarrow> timestamp \<Rightarrow> db \<Rightarrow> db" where
  "insert_server sid ts d =
     d\<lparr>servers := servers d @
        [\<lparr>server_id = sid, description = None, first_seen = ts, last_seen = ts,
          deployment_count = 1, last_success = None, is_active = 1\<rparr>]\<rparr>"

text \<open>\<open>log_deployment\<close>: the three statements in the order of the source, then commit.\<close>

definition log_deployment :: "log_call \<Rightarrow> db \<Rightarrow> nat \<times> db" where
  "log_deployment c d =
     (let (i, d1) = insert_deployment c d;
          d2 = update_server_stats (arg_now c) (int_of_bool (arg_success c)) (arg_server_id c) d1;
          d3 = (if select_server (arg_server_id c) d2 = None
                then insert_server (arg_server_id c) (arg_now c) d2
                else d2)
      in (i, d3))"

text \<open>A sequence of calls, each on the database the previous one committed.\<close>

fun log_deployments :: "log_call list \<Rightarrow> db \<Rightarrow> db" where
  "log_deployments [] d = d"
| "log_deployments (c # cs) d = log_deployments cs (snd (log_deployment c d))"

subsection \<open>Statistics\<close>

datatype py_error = TypeError | NameError | OSError

text \<open>SQL \<open>SUM\<close> over the selected rows: NULL when no row is selected.\<close>

definition sql_sum :: "int list \<Rightarrow> int option" where
  "sql_sum xs = (if xs = [] then None else Some (sum_list xs))"

record stats =
  total_deployments :: int
  successful :: "int option"
  failed :: "int option"
  success_rate :: real
  timeframe_days :: int

text \<open>One day in the unit of \<open>timestamp\<close>.\<close>

definition day_us :: int where
  "day_us = 86400000000"

text \<open>\<open>cutoff_date = (datetime.now() - timedelta(days=days)).isoformat()\<close>\<close>

definition cutoff_date :: "timestamp \<Rightarrow> int \<Rightarrow> timestamp" where
  "cutoff_date now days = now - days * day_us"

text \<open>The rows selected by \<open>WHERE timestamp >= ?\<close>.\<close>

definition in_window :: "timestamp \<Rightarrow> db \<Rightarrow> deployment_row list" where
  "in_window cutoff d = filter (\<lambda>r. dep_timestamp r \<ge> cutoff) (deployments d)"

text \<open>
  \<open>get_deployment_stats\<close>: the totals query and the returned dictionary (the per-server
  and per-day breakdowns are further read-only queries over the same selected rows and are
  not embedded). The function only reads, so the database it leaves is returned beside the
  result. Python's \<open>/\<close> on a NULL operand raises \<open>TypeError\<close>.
\<close>

definition get_deployment_stats :: "int \<Rightarrow> timestamp \<Rightarrow> db \<Rightarrow> (py_error + stats) \<times> db" where
  "get_deployment_stats days now d =
     (let rows = in_window (cutoff_date now days) d;
          total = int (length rows);
          succ = sql_sum (map (\<lambda>r. if dep_success r = 1 then 1 else 0) rows);
          fail = sql_sum (map (\<lambda>r. if dep_success r = 0 then 1 else 0) rows)
      in if total > 0
         then (case succ of
                 None \<Rightarrow> (Inl TypeError, d)
               | Some s \<Rightarrow>
                   (Inr \<lparr>total_deployments = total, successful = succ, failed = fail,
                         success_rate = real_of_int s / real_of_int total * 100,
                         timeframe_days = days\<rparr>, d))
         else (Inr \<lparr>total_deployments = total, successful = succ, failed = fail,
                     success_rate = 0, timeframe_days = days\<rparr>, d))"


subsection \<open>Notions used to state the ledger's properties\<close>

text \<open>The rows of one node in each table, and the calls of a sequence made for one node.\<close>

definition server_rows :: "string \<Rightarrow> db \<Rightarrow> server_row list" where
  "server_rows sid d = filter (\<lambda>r. server_id r = sid) (servers d)"

definition deployments_of :: "string \<Rightarrow> db \<Rightarrow> deployment_row list" where
  "deployments_of sid d = filter (\<lambda>r. dep_server_id r = sid) (deployments d)"

definition calls_for :: "string \<Rightarrow> log_call list \<Rightarrow> log_call list" where
  "calls_for sid cs = filter (\<lambda>c. arg_server_id c = sid) cs"

text \<open>
  The state of one node after the calls \<open>cs\<close> were logged for it, in this order: one
  deployment row for each call, and no server row when there was no call, else exactly
  one, which counts the calls, was first seen at the time of the first call and last seen
  at the time of the last.
\<close>

definition node_ok :: "string \<Rightarrow> db \<Rightarrow> log_call list \<Rightarrow> bool" where
  "node_ok sid d cs =
     (length (deployments_of sid d) = length cs \<and>
      (case server_rows sid d of
         [] \<Rightarrow> cs = []
       | [r] \<Rightarrow> cs \<noteq> [] \<and> deployment_count r = int (length cs) \<and>
               first_seen r = arg_now (hd cs) \<and> last_seen r = arg_now (last cs)
       | _ \<Rightarrow> False))"

text \<open>A deployment report of one rule file, as the \<open>/deploy\<close> endpoint logs it.\<close>

definition sample_call :: "string \<Rightarrow> bool \<Rightarrow> timestamp \<Rightarrow> log_call" where
  "sample_call sid ok t =
     \<lparr>arg_server_id = sid, arg_action = ''deploy'', arg_rules_count = 1,
      arg_decoders_count = 0, arg_success = ok, arg_error_message = [],
      arg_package_size = 0, arg_client_ip = ''0.0.0.0'', arg_now = t\<rparr>"

section \<open>The pullers (server-scripts/pull_rules.py and server-scripts/api_puller.py)\<close>

subsection \<open>Directories and the world a run acts on\<close>

text \<open>
  A live, backup or fetched directory is a flat listing of files: name and content, in the
  order the directory is enumerated. \<open>None\<close> stands for a directory that does not exist.
\<close>

type_synonym dir = "(string \<times> string) list"

text \<open>\<open>Path.glob("*.xml")\<close>: the entries whose name ends in \<open>.xml\<close>.\<close>

definition is_xml :: "string \<Rightarrow> bool" where
  "is_xml n = (drop (length n - 4) n = ''.xml'')"

definition glob_xml :: "dir \<Rightarrow> dir" where
  "glob_xml d = filter (\<lambda>f. is_xml (fst f)) d"

text \<open>Globbing a directory that does not exist yields nothing.\<close>

definition glob_opt :: "dir option \<Rightarrow> dir" where
  "glob_opt d = (case d of None \<Rightarrow> [] | Some x \<Rightarrow> glob_xml x)"

text \<open>\<open>mkdir(parents=True, exist_ok=True)\<close> on a live directory.\<close>

definition mkdir_p :: "dir option \<Rightarrow> dir" where
  "mkdir_p d = (case d of None \<Rightarrow> [] | Some x \<Rightarrow> x)"

text \<open>
  One line of \<open>/var/log/wazuh/rules_pull.log\<close>, or one body posted to \<open>/deploy\<close>:
  the fields that depend on the run.
\<close>

record log_entry =
  le_success :: bool
  le_rules :: nat
  le_decoders :: nat
  le_error :: string

text \<open>
  The world of a puller: the two live directories, the backup directory of this puller
  object (\<open>self.backup_dir\<close>, with its \<open>rules\<close> and \<open>decoders\<close> subdirectories), the
  number of times the consuming process was told to restart, the local deployment log
  with the number of attempts to append to it, and the reports the API accepted with the
  number of attempts to post one.
\<close>

record world =
  wazuh_rules_dir :: "dir option"
  wazuh_decoders_dir :: "dir option"
  backup_dir :: bool
  backup_rules :: "dir option"
  backup_decoders :: "dir option"
  restarts :: nat
  log_calls :: nat
  log_file :: "log_entry list"
  report_calls :: nat
  reports :: "log_entry list"

text \<open>
  What a whole-directory copy (\<open>shutil.copytree\<close>, \<open>cp -r\<close>) does: it completes, or it
  raises and leaves at the destination whatever it had written (possibly nothing).
\<close>

datatype copy_result = Copied | CopyFailed "dir option"

text \<open>
  The configuration of a run and the behaviour of everything outside the program during
  it. \<open>deploy_fault = Some k\<close> makes the file operation of \<open>deploy_files\<close> that follows
  \<open>k\<close> successful ones (each \<open>unlink\<close> and each \<open>copy2\<close> is one operation) raise
  \<open>OSError\<close> before it has any effect. \<open>restart_ok n\<close>, \<open>log_ok n\<close> and \<open>report_ok n\<close>
  tell whether the restart, log append or report post made after \<open>n\<close> earlier ones
  succeeds. \<open>tree_rules\<close> and \<open>tree_decoders\<close> are the \<open>rules\<close> and \<open>decoders\<close>
  directories of the fetched tree: the repository working copy after the git step, or the
  unpacked package. \<open>error_text\<close> is \<open>str(e)\<close>. \<open>backup_mkdir_ok\<close> tells whether
  \<open>self.backup_dir.mkdir(parents=True, exist_ok=True)\<close> succeeds. Creating a live
  directory or the directory of the log, and \<open>chown\<close> (run with \<open>check=False\<close>), are
  taken to succeed.
\<close>

record env =
  create_backup :: bool
  auto_restart :: bool
  backup_mkdir_ok :: bool
  backup_rules_copy :: copy_result
  backup_decoders_copy :: copy_result
  git_ok :: bool
  api_available :: bool
  download_ok :: bool
  extract_ok :: bool
  tree_rules :: "dir option"
  tree_decoders :: "dir option"
  deploy_fault :: "nat option"
  restart_ok :: "nat \<Rightarrow> bool"
  restore_rules_copy :: copy_result
  restore_decoders_copy :: copy_result
  log_ok :: "nat \<Rightarrow> bool"
  report_ok :: "nat \<Rightarrow> bool"
  error_text :: "py_error \<Rightarrow> string"

text \<open>
  \<open>__init__\<close>: the backup directory is named after the second in which the puller object
  is created; it is taken to be a path that does not exist yet.
\<close>

definition new_puller :: "world \<Rightarrow> world" where
  "new_puller w = w\<lparr>backup_dir := False, backup_rules := None, backup_decoders := None\<rparr>"

subsection \<open>Steps shared by both pullers\<close>

text \<open>
  One guarded whole-directory copy, \<open>if src.exists(): copy(src, dst)\<close>, where \<open>dst\<close>
  is absent or has just been removed: whether it completed, and the destination after it.
\<close>

definition copy_if_exists :: "dir option \<Rightarrow> copy_result \<Rightarrow> dir option \<Rightarrow> bool \<times> dir option" where
  "copy_if_exists src res dst =
     (case src of
        None \<Rightarrow> (True, dst)
      | Some s \<Rightarrow> (case res of Copied \<Rightarrow> (True, Some s) | CopyFailed left \<Rightarrow> (False, left)))"

text \<open>
  \<open>backup_current\<close> (the two classes differ only in the copy command). The backup
  directory is created before the \<open>try\<close>: when that fails, the exception leaves the
  method. A copy that raises is inside the \<open>try\<close>: it is caught and makes the step
  return \<open>False\<close>.
\<close>

definition backup_current :: "env \<Rightarrow> world \<Rightarrow> (py_error + bool) \<times> world" where
  "backup_current e w =
     (if \<not> create_backup e then (Inr True, w)
      else if \<not> backup_mkdir_ok e then (Inl OSError, w)
      else
        let w0 = w\<lparr>backup_dir := True\<rparr>;
            (rules_ok, br) =
               copy_if_exists (wazuh_rules_dir w0) (backup_rules_copy e) (backup_rules w0)
        in if \<not> rules_ok then (Inr False, w0\<lparr>backup_rules := br\<rparr>)
           else
             let (decoders_ok, bd) =
                   copy_if_exists (wazuh_decoders_dir w0) (backup_decoders_copy e)
                     (backup_decoders w0)
             in (Inr decoders_ok, w0\<lparr>backup_rules := br, backup_decoders := bd\<rparr>))"

text \<open>
  \<open>restart_wazuh\<close>: nothing is run when \<open>auto_restart\<close> is off; otherwise the result is
  that of the process manager (a time-out or any other exception gives \<open>False\<close>).
\<close>

definition restart_wazuh :: "env \<Rightarrow> world \<Rightarrow> bool \<times> world" where
  "restart_wazuh e w =
     (if \<not> auto_restart e then (True, w)
      else (restart_ok e (restarts w), w\<lparr>restarts := Suc (restarts w)\<rparr>))"

text \<open>
  The fault counter after one more successful file operation. The operation met at
  \<open>Some 0\<close> raises.
\<close>

definition tick :: "nat option \<Rightarrow> nat option" where
  "tick fz = map_option (\<lambda>k. k - 1) fz"

text \<open>\<open>for xml_file in live.glob("*.xml"): xml_file.unlink()\<close>\<close>

fun clear_xml :: "string list \<Rightarrow> nat option \<Rightarrow> dir \<Rightarrow> py_error option \<times> nat option \<times> dir" where
  "clear_xml [] fz d = (None, fz, d)"
| "clear_xml (n # ns) fz d =
     (if fz = Some 0 then (Some OSError, fz, d)
      else clear_xml ns (tick fz) (AList.delete n d))"

subsection \<open>The repository puller, \<open>WazuhRulesPuller\<close>\<close>

text \<open>\<open>clone_or_pull_repo\<close>: every git failure is caught and gives \<open>False\<close>.\<close>

definition clone_or_pull_repo :: "env \<Rightarrow> world \<Rightarrow> bool \<times> world" where
  "clone_or_pull_repo e w = (git_ok e, w)"

text \<open>
  \<open>for xml_file in src.glob("*.xml"): shutil.copy2(xml_file, live / xml_file.name);
  count += 1\<close>
\<close>

fun copy_xml :: "dir \<Rightarrow> nat option \<Rightarrow> dir \<Rightarrow> nat \<Rightarrow> py_error option \<times> nat option \<times> dir \<times> nat" where
  "copy_xml [] fz d n = (None, fz, d, n)"
| "copy_xml (f # fs) fz d n =
     (if fz = Some 0 then (Some OSError, fz, d, n)
      else copy_xml fs (tick fz) (AList.update (fst f) (snd f) d) (Suc n))"

text \<open>One category of \<open>deploy_files\<close>: clear the live XML files, then copy the new ones.\<close>

definition deploy_category ::
  "dir option \<Rightarrow> nat option \<Rightarrow> dir \<Rightarrow> py_error option \<times> nat option \<times> dir \<times> nat" where
  "deploy_category src fz live =
     (case src of
        None \<Rightarrow> (None, fz, live, 0)
      | Some s \<Rightarrow>
          (case clear_xml (map fst (glob_xml live)) fz live of
             (Some x, fz1, d1) \<Rightarrow> (Some x, fz1, d1, 0)
           | (None, fz1, d1) \<Rightarrow> copy_xml (glob_xml s) fz1 d1 0))"

definition deploy_files :: "env \<Rightarrow> world \<Rightarrow> (py_error + nat \<times> nat) \<times> world" where
  "deploy_files e w =
     (let w0 = w\<lparr>wazuh_rules_dir := Some (mkdir_p (wazuh_rules_dir w)),
                 wazuh_decoders_dir := Some (mkdir_p (wazuh_decoders_dir w))\<rparr> in
      (case deploy_category (tree_rules e) (deploy_fault e) (mkdir_p (wazuh_rules_dir w)) of
         (Some x, fz1, r1, rule_count) \<Rightarrow> (Inl x, w0\<lparr>wazuh_rules_dir := Some r1\<rparr>)
       | (None, fz1, r1, rule_count) \<Rightarrow>
           (case deploy_category (tree_decoders e) fz1 (mkdir_p (wazuh_decoders_dir w)) of
              (Some x, fz2, d1, decoder_count) \<Rightarrow>
                (Inl x, w0\<lparr>wazuh_rules_dir := Some r1, wazuh_decoders_dir := Some d1\<rparr>)
            | (None, fz2, d1, decoder_count) \<Rightarrow>
                (Inr (rule_count, decoder_count),
                 w0\<lparr>wazuh_rules_dir := Some r1, wazuh_decoders_dir := Some d1\<rparr>))))"

text \<open>
  \<open>rollback\<close>: for each category the backup holds, remove the live directory and copy the
  backup over it; then restart. A copy that raises ends the rollback with \<open>False\<close>.
\<close>

definition rollback :: "env \<Rightarrow> world \<Rightarrow> bool \<times> world" where
  "rollback e w =
     (if \<not> backup_dir w then (False, w)
      else
        let (rules_ok, r) =
              copy_if_exists (backup_rules w) (restore_rules_copy e) (wazuh_rules_dir w)
        in if \<not> rules_ok then (False, w\<lparr>wazuh_rules_dir := r\<rparr>)
           else
             let (decoders_ok, d) =
                   copy_if_exists (backup_decoders w) (restore_decoders_copy e)
                     (wazuh_decoders_dir w)
             in if \<not> decoders_ok then (False, w\<lparr>wazuh_rules_dir := r, wazuh_decoders_dir := d\<rparr>)
                else
                  let w2 = w\<lparr>wazuh_rules_dir := r, wazuh_decoders_dir := d\<rparr>
                  in (True, if auto_restart e then snd (restart_wazuh e w2) else w2))"

text \<open>
  \<open>log_deployment\<close> of the puller (named apart from the ledger's function): append one
  line to the log file. Nothing in the method catches a failing write.
\<close>

definition puller_log_deployment :: "env \<Rightarrow> log_entry \<Rightarrow> world \<Rightarrow> py_error option \<times> world" where
  "puller_log_deployment e entry w =
     (if log_ok e (log_calls w)
      then (None, w\<lparr>log_calls := Suc (log_calls w), log_file := log_file w @ [entry]\<rparr>)
      else (Some OSError, w\<lparr>log_calls := Suc (log_calls w)\<rparr>))"

text \<open>The \<open>except Exception\<close> handler of \<open>pull_and_deploy\<close>.\<close>

definition deploy_failed :: "env \<Rightarrow> py_error \<Rightarrow> world \<Rightarrow> (py_error + bool) \<times> world" where
  "deploy_failed e x w =
     (let w1 = snd (rollback e w) in
      (case puller_log_deployment e \<lparr>le_success = False, le_rules = 0, le_decoders = 0,
                          le_error = error_text e x\<rparr> w1 of
         (Some y, w2) \<Rightarrow> (Inl y, w2)
       | (None, w2) \<Rightarrow> (Inr False, w2)))"

text \<open>The end of the \<open>try\<close> block: log the success, inside the \<open>try\<close>.\<close>

definition log_success :: "env \<Rightarrow> nat \<Rightarrow> nat \<Rightarrow> world \<Rightarrow> (py_error + bool) \<times> world" where
  "log_success e rule_count decoder_count w =
     (case puller_log_deployment e \<lparr>le_success = True, le_rules = rule_count, le_decoders = decoder_count,
                         le_error = []\<rparr> w of
        (Some x, w1) \<Rightarrow> deploy_failed e x w1
      | (None, w1) \<Rightarrow> (Inr True, w1))"

text \<open>Steps 3 and 4 of \<open>pull_and_deploy\<close>: the \<open>try\<close> block with its handler.\<close>

definition deploy_and_restart :: "env \<Rightarrow> world \<Rightarrow> (py_error + bool) \<times> world" where
  "deploy_and_restart e w =
     (case deploy_files e w of
        (Inl x, w1) \<Rightarrow> deploy_failed e x w1
      | (Inr (rule_count, decoder_count), w1) \<Rightarrow>
          if rule_count > 0 \<or> decoder_count > 0
          then (let (restart_success, w2) = restart_wazuh e w1 in
                if \<not> restart_success then (Inr False, snd (rollback e w2))
                else log_success e rule_count decoder_count w2)
          else log_success e rule_count decoder_count w1)"

text \<open>
  \<open>pull_and_deploy\<close>. The result is the returned truth value, or the exception that
  leaves the method.
\<close>

definition pull_and_deploy :: "env \<Rightarrow> bool \<Rightarrow> world \<Rightarrow> (py_error + bool) \<times> world" where
  "pull_and_deploy e force w =
     (case backup_current e w of
        (Inl x, w1) \<Rightarrow> (Inl x, w1)
      | (Inr backed_up, w1) \<Rightarrow>
          if \<not> backed_up \<and> \<not> force then (Inr False, w1)
          else
            let (pulled, w2) = clone_or_pull_repo e w1 in
            if \<not> pulled then (Inr False, w2)
            else deploy_and_restart e w2)"

text \<open>\<open>main\<close> without \<open>--dry-run\<close>: a new puller object, then \<open>pull_and_deploy\<close>.\<close>

definition main :: "env \<Rightarrow> bool \<Rightarrow> world \<Rightarrow> (py_error + bool) \<times> world" where
  "main e force w = pull_and_deploy e force (new_puller w)"

subsection \<open>The API puller, \<open>WazuhAPIPuller\<close>\<close>

text \<open>
  \<open>deploy_files\<close> of the API puller. No module-level import binds \<open>shutil\<close> (the only
  import of it is local to \<open>pull_and_deploy\<close>), so evaluating \<open>shutil.copy2\<close> in the first
  iteration of a copy loop raises \<open>NameError\<close>. The live directories are not created here.
\<close>

definition api_copy_xml :: "dir \<Rightarrow> py_error option \<times> nat" where
  "api_copy_xml fs = (case fs of [] \<Rightarrow> (None, 0) | f # rest \<Rightarrow> (Some NameError, 0))"

definition api_deploy_category ::
  "dir option \<Rightarrow> nat option \<Rightarrow> dir option \<Rightarrow> py_error option \<times> nat option \<times> dir option \<times> nat" where
  "api_deploy_category src fz live =
     (case src of
        None \<Rightarrow> (None, fz, live, 0)
      | Some s \<Rightarrow>
          (case clear_xml (map fst (glob_opt live)) fz (mkdir_p live) of
             (Some x, fz1, d1) \<Rightarrow> (Some x, fz1, map_option (\<lambda>_. d1) live, 0)
           | (None, fz1, d1) \<Rightarrow>
               (fst (api_copy_xml (glob_xml s)), fz1, map_option (\<lambda>_. d1) live,
                snd (api_copy_xml (glob_xml s)))))"

definition api_deploy_files :: "env \<Rightarrow> world \<Rightarrow> (py_error + nat \<times> nat) \<times> world" where
  "api_deploy_files e w =
     (case api_deploy_category (tree_rules e) (deploy_fault e) (wazuh_rules_dir w) of
        (Some x, fz1, r1, rule_count) \<Rightarrow> (Inl x, w\<lparr>wazuh_rules_dir := r1\<rparr>)
      | (None, fz1, r1, rule_count) \<Rightarrow>
          (case api_deploy_category (tree_decoders e) fz1 (wazuh_decoders_dir w) of
             (Some x, fz2, d1, decoder_count) \<Rightarrow>
               (Inl x, w\<lparr>wazuh_rules_dir := r1, wazuh_decoders_dir := d1\<rparr>)
           | (None, fz2, d1, decoder_count) \<Rightarrow>
               (Inr (rule_count, decoder_count),
                w\<lparr>wazuh_rules_dir := r1, wazuh_decoders_dir := d1\<rparr>)))"

text \<open>
  \<open>report_deployment\<close>: post the outcome to the API; every exception is caught and the
  result is a truth value that \<open>pull_and_deploy\<close> ignores.
\<close>

definition report_deployment :: "env \<Rightarrow> log_entry \<Rightarrow> world \<Rightarrow> bool \<times> world" where
  "report_deployment e entry w =
     (if report_ok e (report_calls w)
      then (True, w\<lparr>report_calls := Suc (report_calls w), reports := reports w @ [entry]\<rparr>)
      else (False, w\<lparr>report_calls := Suc (report_calls w)\<rparr>))"

text \<open>Steps 5 to 7 of the API puller's \<open>pull_and_deploy\<close>: the \<open>try\<close> block.\<close>

definition api_deploy_and_restart :: "env \<Rightarrow> world \<Rightarrow> bool \<times> world" where
  "api_deploy_and_restart e w =
     (case api_deploy_files e w of
        (Inl x, w1) \<Rightarrow>
          (False, snd (report_deployment e \<lparr>le_success = False, le_rules = 0, le_decoders = 0,
                                            le_error = error_text e x\<rparr> w1))
      | (Inr (rule_count, decoder_count), w1) \<Rightarrow>
          if rule_count > 0 \<or> decoder_count > 0
          then (let (restart_success, w2) = restart_wazuh e w1 in
                if \<not> restart_success
                then (False, snd (report_deployment e
                        \<lparr>le_success = False, le_rules = rule_count, le_decoders = decoder_count,
                         le_error = ''Restart failed''\<rparr> w2))
                else (True, snd (report_deployment e
                        \<lparr>le_success = True, le_rules = rule_count, le_decoders = decoder_count,
                         le_error = []\<rparr> w2)))
          else (True, snd (report_deployment e
                  \<lparr>le_success = True, le_rules = rule_count, le_decoders = decoder_count,
                   le_error = []\<rparr> w1)))"

text \<open>
  \<open>pull_and_deploy\<close> of the API puller: the returned truth value, or the exception
  that leaves the method. The \<open>finally\<close> clause removes the temporary directory of the
  unpacked package, which is not part of the world.
\<close>

definition api_pull_and_deploy :: "env \<Rightarrow> bool \<Rightarrow> world \<Rightarrow> (py_error + bool) \<times> world" where
  "api_pull_and_deploy e force w =
     (if \<not> api_available e then (Inr False, w)
      else
        (case backup_current e w of
           (Inl x, w1) \<Rightarrow> (Inl x, w1)
         | (Inr backed_up, w1) \<Rightarrow>
             if \<not> backed_up \<and> \<not> force then (Inr False, w1)
             else if \<not> download_ok e then (Inr False, w1)
             else if \<not> extract_ok e then (Inr False, w1)
             else (let (ok, w2) = api_deploy_and_restart e w1 in (Inr ok, w2))))"

subsection \<open>Notions used to state the pullers' properties\<close>

text \<open>
  What deploying one category leaves in the live directory when no operation fails:
  the live files that are not XML files, then the XML files of the fetched directory.
\<close>

definition install :: "dir option \<Rightarrow> dir \<Rightarrow> dir" where
  "install src live =
     (case src of
        None \<Rightarrow> live
      | Some s \<Rightarrow> foldl (\<lambda>d f. AList.update (fst f) (snd f) d)
                   (filter (\<lambda>f. \<not> is_xml (fst f)) live) (glob_xml s))"

text \<open>
  The number of file operations of \<open>deploy_files\<close> when none of them fails: for each
  category the fetched tree has, one deletion per live XML file and one copy per fetched
  XML file.
\<close>

definition category_ops :: "dir option \<Rightarrow> dir \<Rightarrow> nat" where
  "category_ops src live =
     (case src of None \<Rightarrow> 0 | Some s \<Rightarrow> length (glob_xml live) + length (glob_xml s))"

definition deploy_ops :: "env \<Rightarrow> world \<Rightarrow> nat" where
  "deploy_ops e w =
     category_ops (tree_rules e) (mkdir_p (wazuh_rules_dir w)) +
     category_ops (tree_decoders e) (mkdir_p (wazuh_decoders_dir w))"

text \<open>
  A node with one rule file, one file that is not a rule, and one decoder file; and a run
  with the default configuration in which every step succeeds and the fetched tree holds a
  new rule file and a changed decoder file.
\<close>

definition sample_world :: world where
  "sample_world =
     \<lparr>wazuh_rules_dir = Some [(''old.xml'', ''A''), (''local.txt'', ''T'')],
      wazuh_decoders_dir = Some [(''dec.xml'', ''D'')],
      backup_dir = False, backup_rules = None, backup_decoders = None,
      restarts = 0, log_calls = 0, log_file = [], report_calls = 0, reports = []\<rparr>"

definition sample_env :: env where
  "sample_env =
     \<lparr>create_backup = True, auto_restart = True, backup_mkdir_ok = True,
      backup_rules_copy = Copied, backup_decoders_copy = Copied,
      git_ok = True, api_available = True, download_ok = True, extract_ok = True,
      tree_rules = Some [(''new.xml'', ''B'')], tree_decoders = Some [(''dec.xml'', ''E'')],
      deploy_fault = None, restart_ok = (\<lambda>n. True),
      restore_rules_copy = Copied, restore_decoders_copy = Copied,
      log_ok = (\<lambda>n. True), report_ok = (\<lambda>n. True), error_text = (\<lambda>x. ''error'')\<rparr>"

section \<open>Properties of the audit ledger\<close>

subsection \<open>What one logged deployment does to the rows of a node\<close>

lemma select_server_None: "(select_server sid d = None) = (server_rows sid d = [])"
  by (auto simp: select_server_def server_rows_def find_None_iff filter_empty_conv)

lemma server_id_update [simp]: "server_id (update_server_row ts s sid r) = server_id r"
  by (simp add: update_server_row_def)

lemma server_rows_update:
  "server_rows sid' (update_server_stats ts s sid d) =
     map (update_server_row ts s sid) (server_rows sid' d)"
  by (simp add: server_rows_def update_server_stats_def filter_map comp_def)

lemma servers_insert_deployment [simp]:
  "servers (snd (insert_deployment c d)) = servers d"
  by (simp add: insert_deployment_def Let_def)

lemma server_rows_insert_deployment [simp]:
  "server_rows sid (snd (insert_deployment c d)) = server_rows sid d"
  by (simp add: server_rows_def)

lemma server_rows_log_deployment:
  "server_rows sid (snd (log_deployment c d)) =
     (if arg_server_id c = sid
      then (case server_rows sid d of
              [] \<Rightarrow> [\<lparr>server_id = sid, description = None, first_seen = arg_now c,
                       last_seen = arg_now c, deployment_count = 1, last_success = None,
                       is_active = 1\<rparr>]
            | rs \<Rightarrow> map (update_server_row (arg_now c) (int_of_bool (arg_success c)) sid) rs)
      else map (update_server_row (arg_now c) (int_of_bool (arg_success c)) (arg_server_id c))
             (server_rows sid d))"
  apply (simp add: log_deployment_def split_beta Let_def select_server_None server_rows_update)
  apply (auto simp: server_rows_def insert_server_def update_server_stats_def filter_map comp_def
           split: list.splits)
  done

lemma map_update_other:
  "sid' \<noteq> sid \<Longrightarrow> map (update_server_row ts s sid') (server_rows sid d) = server_rows sid d"
  by (auto simp: server_rows_def update_server_row_def intro!: map_idI)

lemma server_rows_id: "server_rows sid d = r # rs \<Longrightarrow> server_id r = sid"
  by (auto simp: server_rows_def filter_eq_Cons_iff)

lemma deployments_of_log_deployment:
  "deployments_of sid (snd (log_deployment c d)) =
     deployments_of sid d @
       (if arg_server_id c = sid then [last (deployments (snd (log_deployment c d)))] else [])"
  by (simp add: log_deployment_def split_beta Let_def deployments_of_def insert_deployment_def
        update_server_stats_def insert_server_def)

subsection \<open>The node record counts the node's deployments\<close>

lemma log_deployments_snoc:
  "log_deployments (cs @ [c]) d = snd (log_deployment c (log_deployments cs d))"
  by (induction cs arbitrary: d) simp_all

lemma node_ok_step:
  assumes "node_ok sid d cs"
  shows "node_ok sid (snd (log_deployment c d))
           (cs @ (if arg_server_id c = sid then [c] else []))"
  using assms
  by (auto simp: node_ok_def server_rows_log_deployment deployments_of_log_deployment
        map_update_other update_server_row_def split: list.splits dest: server_rows_id)

lemma node_ok_init: "node_ok sid init_db []"
  by (simp add: node_ok_def init_db_def server_rows_def deployments_of_def)

lemma node_ok_run: "node_ok sid (log_deployments cs init_db) (calls_for sid cs)"
proof (induction cs rule: rev_induct)
  case Nil
  show ?case using node_ok_init by (simp add: calls_for_def)
next
  case (snoc c cs)
  from node_ok_step[OF snoc.IH, of c] show ?case
    by (cases "arg_server_id c = sid") (simp_all add: log_deployments_snoc calls_for_def)
qed

lemma sorted_hd_le_last:
  fixes xs :: "int list"
  shows "sorted xs \<Longrightarrow> xs \<noteq> [] \<Longrightarrow> hd xs \<le> last xs"
  by (cases xs) auto

lemma first_call_before_last:
  assumes "sorted (map arg_now cs)" and "calls_for sid cs \<noteq> []"
  shows "arg_now (hd (calls_for sid cs)) \<le> arg_now (last (calls_for sid cs))"
proof -
  have "sorted (map arg_now (calls_for sid cs))"
    unfolding calls_for_def using assms(1) by (rule sorted_filter)
  from sorted_hd_le_last[OF this] assms(2) show ?thesis
    by (simp add: hd_map last_map)
qed

text \<open>
  Claim C8, as the code has it. Start from the empty ledger and log any sequence of
  deployments, for any mix of nodes, successful or not. For every node with at least one
  call in the sequence, the \<open>servers\<close> table then holds exactly one row for it; its
  \<open>deployment_count\<close> is the number \<open>N\<close> of calls made for the node, which is also the
  number of rows the \<open>deployments\<close> table holds for it; its \<open>first_seen\<close> is the time read
  by the first of these calls and its \<open>last_seen\<close> the time read by the last. So
  \<open>last_seen\<close> is not before \<open>first_seen\<close> when the times read by the calls do not
  decrease.
\<close>

theorem node_record_counts_calls:
  assumes "calls_for sid cs \<noteq> []"
  shows "\<exists>r. server_rows sid (log_deployments cs init_db) = [r] \<and>
             deployment_count r = int (length (calls_for sid cs)) \<and>
             deployment_count r = int (length (deployments_of sid (log_deployments cs init_db))) \<and>
             first_seen r = arg_now (hd (calls_for sid cs)) \<and>
             last_seen r = arg_now (last (calls_for sid cs)) \<and>
             (sorted (map arg_now cs) \<longrightarrow> first_seen r \<le> last_seen r)"
proof -
  have ok: "node_ok sid (log_deployments cs init_db) (calls_for sid cs)"
    by (rule node_ok_run)
  from ok assms obtain r where r: "server_rows sid (log_deployments cs init_db) = [r]"
    "deployment_count r = int (length (calls_for sid cs))"
    "length (deployments_of sid (log_deployments cs init_db)) = length (calls_for sid cs)"
    "first_seen r = arg_now (hd (calls_for sid cs))"
    "last_seen r = arg_now (last (calls_for sid cs))"
    by (auto simp: node_ok_def split: list.splits)
  have "sorted (map arg_now cs) \<longrightarrow> first_seen r \<le> last_seen r"
    using first_call_before_last[OF _ assms] r(4,5) by simp
  with r show ?thesis by simp
qed

text \<open>
  Three calls in time order, two of them for node \<open>n1\<close> (one successful, one failed) and
  one for another node: the row of \<open>n1\<close> counts 2, was first seen at 10 and last at 30.
\<close>

theorem node_record_counts_calls_witness:
  "sorted (map arg_now [sample_call ''n1'' True 10, sample_call ''n2'' True 20,
                        sample_call ''n1'' False 30]) \<and>
   (\<exists>r. server_rows ''n1'' (log_deployments
            [sample_call ''n1'' True 10, sample_call ''n2'' True 20, sample_call ''n1'' False 30]
            init_db) = [r] \<and>
        deployment_count r = 2 \<and>
        deployment_count r = int (length (deployments_of ''n1'' (log_deployments
            [sample_call ''n1'' True 10, sample_call ''n2'' True 20, sample_call ''n1'' False 30]
            init_db))) \<and>
        first_seen r = 10 \<and> last_seen r = 30 \<and>
        first_seen r \<le> last_seen r)"
proof -
  let ?cs = "[sample_call ''n1'' True 10, sample_call ''n2'' True 20, sample_call ''n1'' False 30]"
  have h: "calls_for ''n1'' ?cs \<noteq> []" "sorted (map arg_now ?cs)"
    by (simp_all add: sample_call_def calls_for_def)
  have n: "int (length (calls_for ''n1'' ?cs)) = 2"
    "arg_now (hd (calls_for ''n1'' ?cs)) = 10" "arg_now (last (calls_for ''n1'' ?cs)) = 30"
    by (simp_all add: sample_call_def calls_for_def)
  from node_record_counts_calls[OF h(1)] h(2) n show ?thesis by simp
qed

text \<open>
  Claim C8 as stated fails. Two calls of node \<open>n1\<close>, both returning normally, of which
  the second reads an earlier time than the first (the local clock was set back between
  them): the row of \<open>n1\<close> is first seen at 10 and last seen at 5.
\<close>

theorem node_last_seen_before_first_seen:
  "map first_seen (server_rows ''n1''
      (log_deployments [sample_call ''n1'' True 10, sample_call ''n1'' True 5] init_db)) = [10] \<and>
   map last_seen (server_rows ''n1''
      (log_deployments [sample_call ''n1'' True 10, sample_call ''n1'' True 5] init_db)) = [5] \<and>
   map deployment_count (server_rows ''n1''
      (log_deployments [sample_call ''n1'' True 10, sample_call ''n1'' True 5] init_db)) = [2]"
  by (simp add: server_rows_def init_db_def sample_call_def log_deployment_def
        insert_deployment_def update_server_stats_def update_server_row_def select_server_def
        insert_server_def int_of_bool_def)

subsection \<open>The success time of a node that was not yet registered\<close>

lemma no_success_keeps_null:
  "server_rows sid d = [r] \<Longrightarrow> last_success r = None \<Longrightarrow>
   \<forall>c\<in>set cs. arg_server_id c = sid \<longrightarrow> \<not> arg_success c \<Longrightarrow>
   \<exists>r'. server_rows sid (log_deployments cs d) = [r'] \<and> last_success r' = None"
proof (induction cs arbitrary: d r)
  case Nil
  then show ?case by simp
next
  case (Cons c cs)
  let ?r = "update_server_row (arg_now c) (int_of_bool (arg_success c)) (arg_server_id c) r"
  from Cons.prems have rows: "server_rows sid (snd (log_deployment c d)) = [?r]"
    by (simp add: server_rows_log_deployment)
  from Cons.prems have null: "last_success ?r = None"
    by (auto simp: update_server_row_def int_of_bool_def dest: server_rows_id)
  from Cons.prems have rest: "\<forall>c\<in>set cs. arg_server_id c = sid \<longrightarrow> \<not> arg_success c"
    by simp
  from Cons.IH[OF rows null rest] show ?case by simp
qed

text \<open>
  Claim C10. Let a node have no row in \<open>servers\<close> and let its first logged deployment be
  successful. The row that this call creates has \<open>deployment_count\<close> 1 and \<open>last_success\<close>
  NULL (the \<open>UPDATE\<close> that would set it ran before the row existed). It stays NULL through
  any further calls among which none is a successful one for this node, and the next
  successful call for the node, its second success, sets it to that call's time.
\<close>

theorem first_success_leaves_last_success_null:
  assumes "server_rows sid d = []"
    and "arg_server_id c1 = sid" and "arg_success c1"
    and "\<forall>c\<in>set cs. arg_server_id c = sid \<longrightarrow> \<not> arg_success c"
    and "arg_server_id c2 = sid" and "arg_success c2"
  shows "(\<exists>r. server_rows sid (snd (log_deployment c1 d)) = [r] \<and>
              deployment_count r = 1 \<and> last_success r = None) \<and>
         (\<exists>r. server_rows sid (log_deployments cs (snd (log_deployment c1 d))) = [r] \<and>
              last_success r = None) \<and>
         (\<exists>r. server_rows sid
                (snd (log_deployment c2 (log_deployments cs (snd (log_deployment c1 d))))) = [r] \<and>
              last_success r = Some (arg_now c2))"
proof -
  let ?d1 = "snd (log_deployment c1 d)"
  let ?d2 = "log_deployments cs ?d1"
  from assms(1,2) obtain r1 where r1: "server_rows sid ?d1 = [r1]"
    "deployment_count r1 = 1" "last_success r1 = None"
    by (simp add: server_rows_log_deployment)
  from no_success_keeps_null[OF r1(1) r1(3) assms(4)]
  obtain r2 where r2: "server_rows sid ?d2 = [r2]" "last_success r2 = None" by blast
  from r2(1) assms(5,6) have
    "server_rows sid (snd (log_deployment c2 ?d2)) =
       [update_server_row (arg_now c2) 1 sid r2]"
    by (simp add: server_rows_log_deployment int_of_bool_def)
  moreover have "last_success (update_server_row (arg_now c2) 1 sid r2) = Some (arg_now c2)"
    using server_rows_id[OF r2(1)] by (simp add: update_server_row_def)
  ultimately show ?thesis using r1 r2 by simp
qed

text \<open>
  On the empty ledger: a success at time 10, a failure at time 20, a success at time 30,
  all of node \<open>n1\<close>.
\<close>

theorem first_success_leaves_last_success_null_witness:
  "(\<exists>r. server_rows ''n1'' (snd (log_deployment (sample_call ''n1'' True 10) init_db)) = [r] \<and>
        deployment_count r = 1 \<and> last_success r = None) \<and>
   (\<exists>r. server_rows ''n1''
          (snd (log_deployment (sample_call ''n1'' True 30)
             (log_deployments [sample_call ''n1'' False 20]
                (snd (log_deployment (sample_call ''n1'' True 10) init_db))))) = [r] \<and>
        last_success r = Some 30)"
proof -
  have h: "server_rows ''n1'' init_db = []"
    "arg_server_id (sample_call ''n1'' True 10) = ''n1''" "arg_success (sample_call ''n1'' True 10)"
    "\<forall>c\<in>set [sample_call ''n1'' False 20]. arg_server_id c = ''n1'' \<longrightarrow> \<not> arg_success c"
    "arg_server_id (sample_call ''n1'' True 30) = ''n1''" "arg_success (sample_call ''n1'' True 30)"
    by (simp_all add: server_rows_def init_db_def sample_call_def)
  from first_success_leaves_last_success_null[OF h] show ?thesis
    by (simp add: sample_call_def)
qed

subsection \<open>Statistics\<close>

lemma success_flag_sum:
  "\<forall>r\<in>set rows. dep_success r = 0 \<or> dep_success r = 1 \<Longrightarrow>
   sum_list (map (\<lambda>r. if dep_success r = 1 then 1 else 0) rows) +
   sum_list (map (\<lambda>r. if dep_success r = 0 then 1 else 0) rows) = int (length rows)"
  by (induction rows) auto

lemma log_deployment_flags:
  "\<forall>r\<in>set (deployments d). dep_success r = 0 \<or> dep_success r = 1 \<Longrightarrow>
   \<forall>r\<in>set (deployments (snd (log_deployment c d))). dep_success r = 0 \<or> dep_success r = 1"
  by (auto simp: log_deployment_def insert_deployment_def Let_def update_server_stats_def
        insert_server_def int_of_bool_def)

lemma log_deployments_flags:
  "\<forall>r\<in>set (deployments d). dep_success r = 0 \<or> dep_success r = 1 \<Longrightarrow>
   \<forall>r\<in>set (deployments (log_deployments cs d)). dep_success r = 0 \<or> dep_success r = 1"
proof (induction cs arbitrary: d)
  case Nil
  then show ?case by simp
next
  case (Cons c cs)
  from Cons.IH[OF log_deployment_flags[OF Cons.prems]] show ?case by simp
qed

text \<open>Computing the statistics leaves every stored row as it was.\<close>

lemma stats_read_only: "snd (get_deployment_stats days now d) = d"
  by (simp add: get_deployment_stats_def Let_def split: option.splits)

text \<open>
  When at least one logged deployment lies in the window, the function returns; the total
  is the number of rows at or after \<open>now - days\<close>, the successful and failed counts are
  numbers that add up to it, and the rate is successful / total * 100.
\<close>

lemma stats_nonempty_window:
  assumes "in_window (cutoff_date now days) (log_deployments cs init_db) \<noteq> []"
  shows "\<exists>s f. fst (get_deployment_stats days now (log_deployments cs init_db)) =
           Inr \<lparr>total_deployments =
                  int (length (in_window (now - days * day_us) (log_deployments cs init_db))),
                successful = Some s, failed = Some f,
                success_rate = real_of_int s / real_of_int (s + f) * 100,
                timeframe_days = days\<rparr> \<and>
           s + f = int (length (in_window (now - days * day_us) (log_deployments cs init_db)))"
proof -
  let ?rows = "in_window (cutoff_date now days) (log_deployments cs init_db)"
  have "\<forall>r\<in>set (deployments (log_deployments cs init_db)). dep_success r = 0 \<or> dep_success r = 1"
    by (rule log_deployments_flags) (simp add: init_db_def)
  then have "\<forall>r\<in>set ?rows. dep_success r = 0 \<or> dep_success r = 1"
    by (simp add: in_window_def)
  from success_flag_sum[OF this] assms show ?thesis
    by (simp add: get_deployment_stats_def Let_def sql_sum_def cutoff_date_def)
qed

text \<open>
  Claim C9, at a window that holds no row. The ledger holds one successful deployment
  logged at time 0, and the statistics of the last 7 days are asked for 8 days later. The
  total is 0 and the rate is 0, but the successful and failed counts are NULL, not 0:
  they are no numbers that add up to the total.
\<close>

theorem stats_empty_window_null_counts:
  "fst (get_deployment_stats 7 (8 * day_us) (log_deployments [sample_call ''n1'' True 0] init_db)) =
     Inr \<lparr>total_deployments = 0, successful = None, failed = None,
          success_rate = 0, timeframe_days = 7\<rparr>"
  by (simp add: get_deployment_stats_def Let_def sql_sum_def in_window_def init_db_def
        cutoff_date_def day_us_def sample_call_def log_deployment_def insert_deployment_def
        update_server_stats_def select_server_def insert_server_def int_of_bool_def)

section \<open>Properties of the pullers\<close>

text \<open>The definitions that evaluate a run of either puller on a given world.\<close>

lemmas run_defs = sample_env_def sample_world_def pull_and_deploy_def main_def new_puller_def
  backup_current_def copy_if_exists_def clone_or_pull_repo_def deploy_and_restart_def
  deploy_files_def deploy_category_def glob_xml_def glob_opt_def is_xml_def mkdir_p_def tick_def
  deploy_failed_def log_success_def rollback_def restart_wazuh_def puller_log_deployment_def
  Let_def

lemmas api_defs = sample_env_def sample_world_def api_pull_and_deploy_def
  backup_current_def copy_if_exists_def api_deploy_and_restart_def api_deploy_files_def
  api_deploy_category_def api_copy_xml_def glob_xml_def glob_opt_def is_xml_def mkdir_p_def
  tick_def restart_wazuh_def report_deployment_def Let_def

subsection \<open>The file loops when no operation fails\<close>

lemma clear_xml_ok:
  "fz = None \<or> (\<exists>k. fz = Some k \<and> length ns \<le> k) \<Longrightarrow>
   clear_xml ns fz d =
     (None, map_option (\<lambda>k. k - length ns) fz, filter (\<lambda>f. fst f \<notin> set ns) d)"
proof (induction ns arbitrary: fz d)
  case Nil
  then show ?case by (cases fz) auto
next
  case (Cons n ns)
  from Cons.prems have nz: "fz \<noteq> Some 0" by auto
  from Cons.prems have next_ok: "tick fz = None \<or> (\<exists>k. tick fz = Some k \<and> length ns \<le> k)"
    by (auto simp: tick_def)
  have "filter (\<lambda>f. fst f \<notin> set ns) (AList.delete n d) = filter (\<lambda>f. fst f \<notin> set (n # ns)) d"
    by (induction d) (auto simp: AList.delete_eq)
  moreover have "map_option (\<lambda>k. k - length ns) (tick fz) =
      map_option (\<lambda>k. k - length (n # ns)) fz"
    by (cases fz) (auto simp: tick_def)
  ultimately show ?case using nz Cons.IH[OF next_ok] by simp
qed

lemma clear_glob:
  "filter (\<lambda>f. fst f \<notin> fst ` set (glob_xml d)) d = filter (\<lambda>f. \<not> is_xml (fst f)) d"
  by (rule filter_cong) (auto simp: glob_xml_def image_iff)

lemma copy_xml_ok:
  "copy_xml fs None d n =
     (None, None, foldl (\<lambda>d f. AList.update (fst f) (snd f) d) d fs, n + length fs)"
  by (induction fs arbitrary: d n) (auto simp: tick_def)

lemma deploy_category_ok:
  "deploy_category src None live = (None, None, install src live, length (glob_opt src))"
  by (auto simp: deploy_category_def install_def glob_opt_def clear_xml_ok clear_glob copy_xml_ok
        split: option.splits)

lemma deploy_files_ok:
  "deploy_fault e = None \<Longrightarrow>
   deploy_files e w =
     (Inr (length (glob_opt (tree_rules e)), length (glob_opt (tree_decoders e))),
      w\<lparr>wazuh_rules_dir := Some (install (tree_rules e) (mkdir_p (wazuh_rules_dir w))),
        wazuh_decoders_dir := Some (install (tree_decoders e) (mkdir_p (wazuh_decoders_dir w)))\<rparr>)"
  by (simp add: deploy_files_def deploy_category_ok Let_def)

subsection \<open>The file loops when an operation fails\<close>

lemma clear_xml_fault:
  "k < length ns \<Longrightarrow> \<exists>d'. clear_xml ns (Some k) d = (Some OSError, Some 0, d')"
proof (induction ns arbitrary: k d)
  case Nil
  then show ?case by simp
next
  case (Cons n ns)
  show ?case
  proof (cases k)
    case 0
    then show ?thesis by simp
  next
    case (Suc j)
    with Cons.prems have "j < length ns" by simp
    from Cons.IH[OF this, of "AList.delete n d"] Suc show ?thesis
      by (simp add: tick_def)
  qed
qed

lemma copy_xml_fault:
  "k < length fs \<Longrightarrow> \<exists>d' m. copy_xml fs (Some k) d n = (Some OSError, Some 0, d', m)"
proof (induction fs arbitrary: k d n)
  case Nil
  then show ?case by simp
next
  case (Cons f fs)
  show ?case
  proof (cases k)
    case 0
    then show ?thesis by simp
  next
    case (Suc j)
    with Cons.prems have "j < length fs" by simp
    from Cons.IH[OF this, of "AList.update (fst f) (snd f) d" "Suc n"] Suc show ?thesis
      by (simp add: tick_def)
  qed
qed

lemma copy_xml_late_fault:
  "length fs \<le> k \<Longrightarrow>
   copy_xml fs (Some k) d n =
     (None, Some (k - length fs), foldl (\<lambda>d f. AList.update (fst f) (snd f) d) d fs,
      n + length fs)"
proof (induction fs arbitrary: k d n)
  case Nil
  then show ?case by simp
next
  case (Cons f fs)
  then obtain j where j: "k = Suc j" "length fs \<le> j" by (cases k) auto
  from Cons.IH[OF j(2), of "AList.update (fst f) (snd f) d" "Suc n"] j show ?case
    by (simp add: tick_def)
qed

lemma deploy_category_fault:
  "k < category_ops src live \<Longrightarrow>
   \<exists>d' c. deploy_category src (Some k) live = (Some OSError, Some 0, d', c)"
proof (cases src)
  case None
  then show "k < category_ops src live \<Longrightarrow> ?thesis" by (simp add: category_ops_def)
next
  case (Some s)
  assume k: "k < category_ops src live"
  show ?thesis
  proof (cases "k < length (glob_xml live)")
    case True
    then have "k < length (map fst (glob_xml live))" by simp
    from clear_xml_fault[OF this, of live] Some show ?thesis
      by (auto simp: deploy_category_def)
  next
    case False
    then have late: "length (map fst (glob_xml live)) \<le> k" by simp
    have cl: "clear_xml (map fst (glob_xml live)) (Some k) live =
        (None, Some (k - length (glob_xml live)), filter (\<lambda>f. fst f \<notin> set (map fst (glob_xml live))) live)"
      using clear_xml_ok[of "Some k" "map fst (glob_xml live)" live] late by simp
    from k Some False have "k - length (glob_xml live) < length (glob_xml s)"
      by (simp add: category_ops_def)
    from copy_xml_fault[OF this] cl Some show ?thesis
      by (simp add: deploy_category_def)
  qed
qed

lemma deploy_category_late_fault:
  "category_ops src live \<le> k \<Longrightarrow>
   deploy_category src (Some k) live =
     (None, Some (k - category_ops src live), install src live, length (glob_opt src))"
proof (cases src)
  case None
  then show ?thesis by (simp add: deploy_category_def category_ops_def install_def glob_opt_def)
next
  case (Some s)
  assume k: "category_ops src live \<le> k"
  with Some have late: "length (map fst (glob_xml live)) \<le> k"
    and late2: "length (glob_xml s) \<le> k - length (glob_xml live)"
    by (simp_all add: category_ops_def)
  have cl: "clear_xml (map fst (glob_xml live)) (Some k) live =
      (None, Some (k - length (glob_xml live)), filter (\<lambda>f. \<not> is_xml (fst f)) live)"
    using clear_xml_ok[of "Some k" "map fst (glob_xml live)" live] late clear_glob[of live]
    by simp
  from cl copy_xml_late_fault[OF late2] Some show ?thesis
    by (simp add: deploy_category_def category_ops_def install_def glob_opt_def)
qed

lemma deploy_files_fault:
  assumes "deploy_fault e = Some k" and "k < deploy_ops e w"
  shows "\<exists>w'. deploy_files e w = (Inl OSError, w')"
proof (cases "k < category_ops (tree_rules e) (mkdir_p (wazuh_rules_dir w))")
  case True
  from deploy_category_fault[OF this] assms(1) show ?thesis
    by (auto simp: deploy_files_def Let_def)
next
  case False
  then have late: "category_ops (tree_rules e) (mkdir_p (wazuh_rules_dir w)) \<le> k" by simp
  with assms(2) have "k - category_ops (tree_rules e) (mkdir_p (wazuh_rules_dir w))
      < category_ops (tree_decoders e) (mkdir_p (wazuh_decoders_dir w))"
    by (simp add: deploy_ops_def)
  from deploy_category_fault[OF this] deploy_category_late_fault[OF late] assms(1)
  show ?thesis
    by (auto simp: deploy_files_def Let_def)
qed

subsection \<open>What each step leaves untouched\<close>

lemma deploy_files_frame:
  "backup_dir (snd (deploy_files e w)) = backup_dir w"
  "backup_rules (snd (deploy_files e w)) = backup_rules w"
  "backup_decoders (snd (deploy_files e w)) = backup_decoders w"
  "restarts (snd (deploy_files e w)) = restarts w"
  "log_calls (snd (deploy_files e w)) = log_calls w"
  "log_file (snd (deploy_files e w)) = log_file w"
  by (simp_all add: deploy_files_def Let_def split: prod.splits option.splits)

lemma backup_current_frame:
  "wazuh_rules_dir (snd (backup_current e w)) = wazuh_rules_dir w"
  "wazuh_decoders_dir (snd (backup_current e w)) = wazuh_decoders_dir w"
  "restarts (snd (backup_current e w)) = restarts w"
  "log_calls (snd (backup_current e w)) = log_calls w"
  "log_file (snd (backup_current e w)) = log_file w"
  "report_calls (snd (backup_current e w)) = report_calls w"
  "reports (snd (backup_current e w)) = reports w"
  by (simp_all add: backup_current_def copy_if_exists_def Let_def
        split: option.splits copy_result.splits prod.splits)

lemma backup_current_taken:
  assumes "create_backup e" "backup_mkdir_ok e"
    "backup_rules_copy e = Copied" "backup_decoders_copy e = Copied"
    "wazuh_rules_dir w = Some r" "wazuh_decoders_dir w = Some d"
  shows "backup_current e w =
    (Inr True, w\<lparr>backup_dir := True, backup_rules := Some r, backup_decoders := Some d\<rparr>)"
  using assms by (simp add: backup_current_def copy_if_exists_def Let_def)

lemma backup_current_copied:
  "backup_mkdir_ok e \<Longrightarrow> backup_rules_copy e = Copied \<Longrightarrow>
   backup_decoders_copy e = Copied \<Longrightarrow> fst (backup_current e w) = Inr True"
  by (simp add: backup_current_def copy_if_exists_def Let_def split: option.splits)

lemma rollback_restores:
  assumes "backup_dir w" "backup_rules w = Some r" "backup_decoders w = Some d"
    "restore_rules_copy e = Copied" "restore_decoders_copy e = Copied"
  shows "wazuh_rules_dir (snd (rollback e w)) = Some r"
    "wazuh_decoders_dir (snd (rollback e w)) = Some d"
    "log_calls (snd (rollback e w)) = log_calls w"
    "log_file (snd (rollback e w)) = log_file w"
  using assms by (simp_all add: rollback_def copy_if_exists_def restart_wazuh_def Let_def)

lemma rollback_restarts: "restarts w \<le> restarts (snd (rollback e w))"
  by (simp add: rollback_def copy_if_exists_def restart_wazuh_def Let_def
        split: option.splits copy_result.splits prod.splits)

lemma deploy_failed_frame:
  "wazuh_rules_dir (snd (deploy_failed e x w)) = wazuh_rules_dir (snd (rollback e w))"
  "wazuh_decoders_dir (snd (deploy_failed e x w)) = wazuh_decoders_dir (snd (rollback e w))"
  "fst (deploy_failed e x w) \<noteq> Inr True"
  by (simp_all add: deploy_failed_def Let_def puller_log_deployment_def)

subsection \<open>A failure inside \<open>deploy_files\<close>\<close>

text \<open>
  Claim C1, as the code has it. In the repository puller, when the backup step of the run
  has copied both live directories (\<open>create_backup\<close> on, the backup directory created,
  both live directories present, both copies completed) and the two copies of the
  rollback complete, a failure injected at any one of the file operations of
  \<open>deploy_files\<close> makes it raise and is followed by a rollback after which both live
  directories hold exactly the files and contents they held before the run, and the run
  does not return success.
\<close>

theorem deploy_failure_rolled_back:
  assumes "create_backup e" and "backup_mkdir_ok e"
    and "backup_rules_copy e = Copied" and "backup_decoders_copy e = Copied"
    and "wazuh_rules_dir w = Some r" and "wazuh_decoders_dir w = Some d"
    and "git_ok e"
    and "deploy_fault e = Some k" and "k < deploy_ops e w"
    and "restore_rules_copy e = Copied" and "restore_decoders_copy e = Copied"
  shows "fst (deploy_files e (snd (backup_current e w))) = Inl OSError \<and>
         wazuh_rules_dir (snd (pull_and_deploy e force w)) = Some r \<and>
         wazuh_decoders_dir (snd (pull_and_deploy e force w)) = Some d \<and>
         fst (pull_and_deploy e force w) \<noteq> Inr True"
proof -
  let ?w1 = "w\<lparr>backup_dir := True, backup_rules := Some r, backup_decoders := Some d\<rparr>"
  have b: "backup_current e w = (Inr True, ?w1)"
    using assms(1-6) by (rule backup_current_taken)
  have "k < deploy_ops e ?w1"
    using assms(9) by (simp add: deploy_ops_def)
  from deploy_files_fault[OF assms(8) this]
  obtain w2 where d: "deploy_files e ?w1 = (Inl OSError, w2)" by blast
  have w2: "backup_dir w2" "backup_rules w2 = Some r" "backup_decoders w2 = Some d"
    using deploy_files_frame(1-3)[of e ?w1] d by simp_all
  have run: "pull_and_deploy e force w = deploy_failed e OSError w2"
    using b d assms(7)
    by (simp add: pull_and_deploy_def clone_or_pull_repo_def deploy_and_restart_def)
  show ?thesis
    unfolding run
    using rollback_restores(1,2)[OF w2 assms(10,11)] b d by (simp add: deploy_failed_frame)
qed

text \<open>
  The sample run with the second file operation failing (the old rule file is deleted,
  the copy of the new one raises): the rollback brings the old files back.
\<close>

theorem deploy_failure_rolled_back_witness:
  "fst (deploy_files (sample_env\<lparr>deploy_fault := Some 1\<rparr>)
          (snd (backup_current (sample_env\<lparr>deploy_fault := Some 1\<rparr>) sample_world))) =
     Inl OSError \<and>
   wazuh_rules_dir
     (snd (pull_and_deploy (sample_env\<lparr>deploy_fault := Some 1\<rparr>) False sample_world)) =
     Some [(''old.xml'', ''A''), (''local.txt'', ''T'')] \<and>
   wazuh_decoders_dir
     (snd (pull_and_deploy (sample_env\<lparr>deploy_fault := Some 1\<rparr>) False sample_world)) =
     Some [(''dec.xml'', ''D'')] \<and>
   fst (pull_and_deploy (sample_env\<lparr>deploy_fault := Some 1\<rparr>) False sample_world) \<noteq> Inr True"
proof -
  let ?e = "sample_env\<lparr>deploy_fault := Some 1\<rparr>"
  have h: "create_backup ?e" "backup_mkdir_ok ?e"
    "backup_rules_copy ?e = Copied" "backup_decoders_copy ?e = Copied"
    "wazuh_rules_dir sample_world = Some [(''old.xml'', ''A''), (''local.txt'', ''T'')]"
    "wazuh_decoders_dir sample_world = Some [(''dec.xml'', ''D'')]"
    "git_ok ?e"
    "deploy_fault ?e = Some 1" "1 < deploy_ops ?e sample_world"
    "restore_rules_copy ?e = Copied" "restore_decoders_copy ?e = Copied"
    by (simp_all add: run_defs deploy_ops_def category_ops_def)
  from deploy_failure_rolled_back[OF h, of False] show ?thesis by simp
qed

text \<open>
  With \<open>create_backup\<close> switched off and no backup directory of this puller on disk,
  the rollback finds nothing to restore: whenever \<open>deploy_files\<close> raises, the run leaves
  both live directories as \<open>deploy_files\<close> left them.
\<close>

lemma deploy_failure_no_backup:
  assumes "\<not> create_backup e" and "\<not> backup_dir w" and "git_ok e"
    and "fst (deploy_files e w) = Inl x"
  shows "wazuh_rules_dir (snd (pull_and_deploy e force w)) =
           wazuh_rules_dir (snd (deploy_files e w))"
    and "wazuh_decoders_dir (snd (pull_and_deploy e force w)) =
           wazuh_decoders_dir (snd (deploy_files e w))"
    and "fst (pull_and_deploy e force w) \<noteq> Inr True"
proof -
  obtain w2 where d: "deploy_files e w = (Inl x, w2)"
    using assms(4) by (cases "deploy_files e w") auto
  have "backup_dir w2 = backup_dir w"
    using deploy_files_frame(1)[of e w] d by simp
  with assms(2) have rb: "rollback e w2 = (False, w2)"
    by (simp add: rollback_def)
  have run: "pull_and_deploy e force w = deploy_failed e x w2"
    using assms(1,3) d
    by (simp add: pull_and_deploy_def backup_current_def clone_or_pull_repo_def
          deploy_and_restart_def)
  show "wazuh_rules_dir (snd (pull_and_deploy e force w)) =
           wazuh_rules_dir (snd (deploy_files e w))"
    unfolding run using rb d by (simp add: deploy_failed_frame)
  show "wazuh_decoders_dir (snd (pull_and_deploy e force w)) =
           wazuh_decoders_dir (snd (deploy_files e w))"
    unfolding run using rb d by (simp add: deploy_failed_frame)
  show "fst (pull_and_deploy e force w) \<noteq> Inr True"
    unfolding run by (simp add: deploy_failed_frame)
qed

text \<open>
  Claim C1 as stated fails. With \<open>create_backup\<close> switched off in the configuration, the
  same failure leaves the live rules directory without the old rule file and without
  the new one: there is no backup to restore from.
\<close>

theorem deploy_failure_without_backup:
  "fst (deploy_files (sample_env\<lparr>create_backup := False, deploy_fault := Some 1\<rparr>) sample_world) =
     Inl OSError \<and>
   wazuh_rules_dir sample_world = Some [(''old.xml'', ''A''), (''local.txt'', ''T'')] \<and>
   wazuh_rules_dir (snd (pull_and_deploy
       (sample_env\<lparr>create_backup := False, deploy_fault := Some 1\<rparr>) False sample_world)) =
     Some [(''local.txt'', ''T'')]"
  by (simp add: run_defs)

subsection \<open>A restart that fails after a completed deploy\<close>

text \<open>
  Claim C3, as the code has it. In the repository puller, when the backup step of the run
  has copied both live directories (\<open>create_backup\<close> on, the backup directory created,
  both live directories present, both copies completed) and the two copies of the
  rollback complete, a run
  whose \<open>deploy_files\<close> completes with at least one file copied and whose restart of the
  consuming process then fails restores both live directories to the files and contents
  they held before the run, and returns \<open>False\<close>.
\<close>

theorem restart_failure_rolled_back:
  assumes "create_backup e" and "backup_mkdir_ok e"
    and "backup_rules_copy e = Copied" and "backup_decoders_copy e = Copied"
    and "wazuh_rules_dir w = Some r" and "wazuh_decoders_dir w = Some d"
    and "git_ok e"
    and "fst (deploy_files e (snd (backup_current e w))) = Inr (rule_count, decoder_count)"
    and "rule_count > 0 \<or> decoder_count > 0"
    and "auto_restart e" and "\<not> restart_ok e (restarts w)"
    and "restore_rules_copy e = Copied" and "restore_decoders_copy e = Copied"
  shows "fst (pull_and_deploy e force w) = Inr False \<and>
         wazuh_rules_dir (snd (pull_and_deploy e force w)) = Some r \<and>
         wazuh_decoders_dir (snd (pull_and_deploy e force w)) = Some d"
proof -
  let ?w1 = "w\<lparr>backup_dir := True, backup_rules := Some r, backup_decoders := Some d\<rparr>"
  have b: "backup_current e w = (Inr True, ?w1)"
    using assms(1-6) by (rule backup_current_taken)
  obtain w2 where d: "deploy_files e ?w1 = (Inr (rule_count, decoder_count), w2)"
    using assms(8) b by (cases "deploy_files e ?w1") auto
  have w2: "backup_dir w2" "backup_rules w2 = Some r" "backup_decoders w2 = Some d"
    "restarts w2 = restarts w"
    using deploy_files_frame(1-4)[of e ?w1] d by simp_all
  let ?w3 = "w2\<lparr>restarts := Suc (restarts w2)\<rparr>"
  have run: "pull_and_deploy e force w = (Inr False, snd (rollback e ?w3))"
    using b d assms(7,9,10,11) w2(4)
    by (auto simp: pull_and_deploy_def clone_or_pull_repo_def deploy_and_restart_def
          restart_wazuh_def)
  have w3: "backup_dir ?w3" "backup_rules ?w3 = Some r" "backup_decoders ?w3 = Some d"
    using w2 by simp_all
  show ?thesis
    unfolding run
    using rollback_restores(1,2)[OF w3 assms(12,13)] by simp
qed

text \<open>The sample run with a process manager that never gets the consumer running.\<close>

theorem restart_failure_rolled_back_witness:
  "fst (pull_and_deploy (sample_env\<lparr>restart_ok := (\<lambda>n. False)\<rparr>) False sample_world) =
     Inr False \<and>
   wazuh_rules_dir
     (snd (pull_and_deploy (sample_env\<lparr>restart_ok := (\<lambda>n. False)\<rparr>) False sample_world)) =
     Some [(''old.xml'', ''A''), (''local.txt'', ''T'')] \<and>
   wazuh_decoders_dir
     (snd (pull_and_deploy (sample_env\<lparr>restart_ok := (\<lambda>n. False)\<rparr>) False sample_world)) =
     Some [(''dec.xml'', ''D'')]"
proof -
  let ?e = "sample_env\<lparr>restart_ok := (\<lambda>n. False)\<rparr>"
  have h: "create_backup ?e" "backup_mkdir_ok ?e"
    "backup_rules_copy ?e = Copied" "backup_decoders_copy ?e = Copied"
    "wazuh_rules_dir sample_world = Some [(''old.xml'', ''A''), (''local.txt'', ''T'')]"
    "wazuh_decoders_dir sample_world = Some [(''dec.xml'', ''D'')]"
    "git_ok ?e"
    "fst (deploy_files ?e (snd (backup_current ?e sample_world))) = Inr (1, 1)"
    "(1::nat) > 0 \<or> (1::nat) > 0"
    "auto_restart ?e" "\<not> restart_ok ?e (restarts sample_world)"
    "restore_rules_copy ?e = Copied" "restore_decoders_copy ?e = Copied"
    by (simp_all add: run_defs)
  from restart_failure_rolled_back[OF h, of False] show ?thesis by simp
qed

text \<open>
  Claim C3 as stated fails. With \<open>create_backup\<close> switched off, the run whose restart
  fails returns \<open>False\<close> and leaves the new rule file in the live directory, where the
  old one was before the run.
\<close>

theorem restart_failure_without_backup:
  "fst (pull_and_deploy (sample_env\<lparr>create_backup := False, restart_ok := (\<lambda>n. False)\<rparr>)
          False sample_world) = Inr False \<and>
   wazuh_rules_dir sample_world = Some [(''old.xml'', ''A''), (''local.txt'', ''T'')] \<and>
   wazuh_rules_dir (snd (pull_and_deploy
       (sample_env\<lparr>create_backup := False, restart_ok := (\<lambda>n. False)\<rparr>) False sample_world)) =
     Some [(''local.txt'', ''T''), (''new.xml'', ''B'')]"
  by (simp add: run_defs)

subsection \<open>When the consuming process is restarted\<close>

text \<open>
  Claim C4, as the code has it. Neither puller compares the fetched tree with the live
  directories. In the repository puller, a run that gets past the backup step and the git
  step, meets no failing file operation and can write its log line restarts the consuming
  process exactly when \<open>auto_restart\<close> is on and \<open>deploy_files\<close> copied at least one file,
  that is, when the fetched tree has an XML file under \<open>rules\<close> or \<open>decoders\<close>; whether
  the live content already equals the fetched content plays no part.
\<close>

theorem restart_iff_files_copied:
  assumes "fst (backup_current e w) = Inr True \<or>
           (force \<and> fst (backup_current e w) = Inr False)"
    and "git_ok e" and "deploy_fault e = None"
    and "log_ok e (log_calls w)"
  shows "(restarts w < restarts (snd (pull_and_deploy e force w))) =
         (auto_restart e \<and> (glob_opt (tree_rules e) \<noteq> [] \<or> glob_opt (tree_decoders e) \<noteq> []))"
proof -
  obtain b w1 where b: "backup_current e w = (b, w1)" by (cases "backup_current e w")
  have w1: "restarts w1 = restarts w" "log_calls w1 = log_calls w"
    using backup_current_frame(3,4)[of e w] b by simp_all
  let ?w2 = "w1\<lparr>wazuh_rules_dir := Some (install (tree_rules e) (mkdir_p (wazuh_rules_dir w1))),
        wazuh_decoders_dir := Some (install (tree_decoders e) (mkdir_p (wazuh_decoders_dir w1)))\<rparr>"
  have run: "pull_and_deploy e force w = deploy_and_restart e w1"
    using b assms(1,2) by (auto simp: pull_and_deploy_def clone_or_pull_repo_def)
  show ?thesis
  proof (cases "auto_restart e \<and>
      (glob_opt (tree_rules e) \<noteq> [] \<or> glob_opt (tree_decoders e) \<noteq> [])")
    case True
    let ?w3 = "?w2\<lparr>restarts := Suc (restarts w)\<rparr>"
    have "restarts w < restarts (snd (deploy_and_restart e w1))"
    proof (cases "restart_ok e (restarts w)")
      case ok: True
      with True assms(3,4) w1 show ?thesis
        by (auto simp: deploy_and_restart_def deploy_files_ok restart_wazuh_def log_success_def
              puller_log_deployment_def)
    next
      case bad: False
      have "deploy_and_restart e w1 = (Inr False, snd (rollback e ?w3))"
        using True bad assms(3) w1
        by (auto simp: deploy_and_restart_def deploy_files_ok restart_wazuh_def)
      moreover have "restarts ?w3 \<le> restarts (snd (rollback e ?w3))"
        by (rule rollback_restarts)
      ultimately show ?thesis by simp
    qed
    with True run show ?thesis by simp
  next
    case False
    with assms(3,4) w1 have "restarts (snd (deploy_and_restart e w1)) = restarts w"
      by (auto simp: deploy_and_restart_def deploy_files_ok restart_wazuh_def log_success_def
            puller_log_deployment_def)
    with False run show ?thesis by simp
  qed
qed

text \<open>The sample run: a rule file is fetched, and the consumer is restarted.\<close>

theorem restart_iff_files_copied_witness:
  "restarts sample_world < restarts (snd (pull_and_deploy sample_env False sample_world)) \<and>
   auto_restart sample_env \<and> glob_opt (tree_rules sample_env) \<noteq> []"
proof -
  have h: "fst (backup_current sample_env sample_world) = Inr True \<or>
       (False \<and> fst (backup_current sample_env sample_world) = Inr False)"
    "git_ok sample_env"
    "deploy_fault sample_env = None" "log_ok sample_env (log_calls sample_world)"
    by (simp_all add: run_defs)
  have g: "auto_restart sample_env" "glob_opt (tree_rules sample_env) \<noteq> []"
    by (simp_all add: run_defs)
  from restart_iff_files_copied[OF h] g show ?thesis by simp
qed

text \<open>
  Claim C4 as stated fails. The fetched tree and the live directories hold the same files
  with the same contents, and the run still restarts the consuming process.
\<close>

theorem restart_on_unchanged_content:
  "tree_rules (sample_env\<lparr>tree_rules := Some [(''old.xml'', ''A'')],
                          tree_decoders := Some [(''dec.xml'', ''D'')]\<rparr>) =
     wazuh_rules_dir (sample_world\<lparr>wazuh_rules_dir := Some [(''old.xml'', ''A'')]\<rparr>) \<and>
   tree_decoders (sample_env\<lparr>tree_rules := Some [(''old.xml'', ''A'')],
                             tree_decoders := Some [(''dec.xml'', ''D'')]\<rparr>) =
     wazuh_decoders_dir (sample_world\<lparr>wazuh_rules_dir := Some [(''old.xml'', ''A'')]\<rparr>) \<and>
   restarts (sample_world\<lparr>wazuh_rules_dir := Some [(''old.xml'', ''A'')]\<rparr>) = 0 \<and>
   restarts (snd (pull_and_deploy
       (sample_env\<lparr>tree_rules := Some [(''old.xml'', ''A'')],
                    tree_decoders := Some [(''dec.xml'', ''D'')]\<rparr>)
       False (sample_world\<lparr>wazuh_rules_dir := Some [(''old.xml'', ''A'')]\<rparr>))) = 1"
  by (simp add: run_defs)

subsection \<open>Two runs in succession\<close>

lemma filter_update_other:
  "\<not> P k \<Longrightarrow> filter (\<lambda>f. P (fst f)) (AList.update k v d) = filter (\<lambda>f. P (fst f)) d"
  by (induction d) auto

lemma filter_foldl_update:
  "\<forall>f\<in>set fs. \<not> P (fst f) \<Longrightarrow>
   filter (\<lambda>f. P (fst f)) (foldl (\<lambda>d f. AList.update (fst f) (snd f) d) d fs) =
   filter (\<lambda>f. P (fst f)) d"
  by (induction fs arbitrary: d) (auto simp: filter_update_other)

lemma non_xml_install:
  "filter (\<lambda>f. \<not> is_xml (fst f)) (install src live) = filter (\<lambda>f. \<not> is_xml (fst f)) live"
proof (cases src)
  case None
  then show ?thesis by (simp add: install_def)
next
  case (Some s)
  have "\<forall>f\<in>set (glob_xml s). \<not> \<not> is_xml (fst f)" by (simp add: glob_xml_def)
  from filter_foldl_update[where P = "\<lambda>n. \<not> is_xml n", OF this] Some
  show ?thesis by (simp add: install_def)
qed

lemma install_idem: "install src (install src live) = install src live"
proof (cases src)
  case None
  then show ?thesis by (simp add: install_def)
next
  case (Some s)
  have "install (Some s) (install (Some s) live) =
        foldl (\<lambda>d f. AList.update (fst f) (snd f) d)
          (filter (\<lambda>f. \<not> is_xml (fst f)) (install (Some s) live)) (glob_xml s)"
    by (simp add: install_def)
  also have "\<dots> = foldl (\<lambda>d f. AList.update (fst f) (snd f) d)
          (filter (\<lambda>f. \<not> is_xml (fst f)) live) (glob_xml s)"
    by (simp only: non_xml_install)
  also have "\<dots> = install (Some s) live"
    by (simp add: install_def)
  finally show ?thesis using Some by simp
qed

lemma main_all_ok:
  assumes "backup_mkdir_ok e"
    and "backup_rules_copy e = Copied" and "backup_decoders_copy e = Copied"
    and "git_ok e" and "deploy_fault e = None"
    and "\<forall>n. restart_ok e n" and "\<forall>n. log_ok e n"
  shows "fst (main e force w) = Inr True"
    "wazuh_rules_dir (snd (main e force w)) =
       Some (install (tree_rules e) (mkdir_p (wazuh_rules_dir w)))"
    "wazuh_decoders_dir (snd (main e force w)) =
       Some (install (tree_decoders e) (mkdir_p (wazuh_decoders_dir w)))"
    "log_file (snd (main e force w)) = log_file w @
       [\<lparr>le_success = True, le_rules = length (glob_opt (tree_rules e)),
         le_decoders = length (glob_opt (tree_decoders e)), le_error = []\<rparr>]"
proof -
  obtain w1 where b: "backup_current e (new_puller w) = (Inr True, w1)"
    using backup_current_copied[OF assms(1,2,3), of "new_puller w"]
    by (cases "backup_current e (new_puller w)") auto
  have w1: "wazuh_rules_dir w1 = wazuh_rules_dir w" "wazuh_decoders_dir w1 = wazuh_decoders_dir w"
    "log_file w1 = log_file w"
    using backup_current_frame(1,2,5)[of e "new_puller w"] b by (simp_all add: new_puller_def)
  have run: "main e force w = deploy_and_restart e w1"
    using b assms(4) by (simp add: main_def pull_and_deploy_def clone_or_pull_repo_def)
  show "fst (main e force w) = Inr True"
    unfolding run using assms(5,6,7)
    by (simp add: deploy_and_restart_def deploy_files_ok restart_wazuh_def log_success_def
          puller_log_deployment_def)
  show "wazuh_rules_dir (snd (main e force w)) =
       Some (install (tree_rules e) (mkdir_p (wazuh_rules_dir w)))"
    unfolding run using assms(5,6,7) w1
    by (simp add: deploy_and_restart_def deploy_files_ok restart_wazuh_def log_success_def
          puller_log_deployment_def)
  show "wazuh_decoders_dir (snd (main e force w)) =
       Some (install (tree_decoders e) (mkdir_p (wazuh_decoders_dir w)))"
    unfolding run using assms(5,6,7) w1
    by (simp add: deploy_and_restart_def deploy_files_ok restart_wazuh_def log_success_def
          puller_log_deployment_def)
  show "log_file (snd (main e force w)) = log_file w @
       [\<lparr>le_success = True, le_rules = length (glob_opt (tree_rules e)),
         le_decoders = length (glob_opt (tree_decoders e)), le_error = []\<rparr>]"
    unfolding run using assms(5,6,7) w1
    by (simp add: deploy_and_restart_def deploy_files_ok restart_wazuh_def log_success_def
          puller_log_deployment_def)
qed

text \<open>
  Claim C5, as the code has it. Run the repository puller twice in succession against the
  same fetched tree, every step succeeding. Both runs return \<open>True\<close>, and after the second
  run both live directories hold exactly what they held after the first. The second run
  is no empty run, though: it logs as applied the number of XML files of the fetched tree,
  as the first did.
\<close>

theorem second_run_same_content:
  assumes "backup_mkdir_ok e"
    and "backup_rules_copy e = Copied" and "backup_decoders_copy e = Copied"
    and "git_ok e" and "deploy_fault e = None"
    and "\<forall>n. restart_ok e n" and "\<forall>n. log_ok e n"
  shows "fst (main e force w) = Inr True \<and>
         fst (main e force (snd (main e force w))) = Inr True \<and>
         wazuh_rules_dir (snd (main e force (snd (main e force w)))) =
           wazuh_rules_dir (snd (main e force w)) \<and>
         wazuh_decoders_dir (snd (main e force (snd (main e force w)))) =
           wazuh_decoders_dir (snd (main e force w)) \<and>
         log_file (snd (main e force (snd (main e force w)))) =
           log_file (snd (main e force w)) @
             [\<lparr>le_success = True, le_rules = length (glob_opt (tree_rules e)),
               le_decoders = length (glob_opt (tree_decoders e)), le_error = []\<rparr>]"
  using main_all_ok[OF assms, of force w] main_all_ok[OF assms, of force "snd (main e force w)"]
  by (simp add: mkdir_p_def install_idem)

text \<open>The sample run, twice.\<close>

theorem second_run_same_content_witness:
  "fst (main sample_env False (snd (main sample_env False sample_world))) = Inr True \<and>
   wazuh_rules_dir (snd (main sample_env False (snd (main sample_env False sample_world)))) =
     Some [(''local.txt'', ''T''), (''new.xml'', ''B'')] \<and>
   wazuh_rules_dir (snd (main sample_env False sample_world)) =
     Some [(''local.txt'', ''T''), (''new.xml'', ''B'')]"
proof -
  have h: "backup_mkdir_ok sample_env"
    "backup_rules_copy sample_env = Copied" "backup_decoders_copy sample_env = Copied"
    "git_ok sample_env" "deploy_fault sample_env = None"
    "\<forall>n. restart_ok sample_env n" "\<forall>n. log_ok sample_env n"
    by (simp_all add: sample_env_def)
  have r: "wazuh_rules_dir (snd (main sample_env False sample_world)) =
     Some [(''local.txt'', ''T''), (''new.xml'', ''B'')]"
    by (simp add: run_defs)
  from second_run_same_content[OF h, of False sample_world] r show ?thesis by simp
qed

text \<open>
  Claim C5 as stated fails. The second of two runs against the same fetched tree logs one
  rule file and one decoder file as applied, not zero, and restarts the consuming process
  a second time.
\<close>

theorem second_run_reapplies_files:
  "fst (main sample_env False (snd (main sample_env False sample_world))) = Inr True \<and>
   log_file (snd (main sample_env False (snd (main sample_env False sample_world)))) =
     [\<lparr>le_success = True, le_rules = 1, le_decoders = 1, le_error = []\<rparr>,
      \<lparr>le_success = True, le_rules = 1, le_decoders = 1, le_error = []\<rparr>] \<and>
   restarts (snd (main sample_env False sample_world)) = 1 \<and>
   restarts (snd (main sample_env False (snd (main sample_env False sample_world)))) = 2"
  by (simp add: run_defs)

subsection \<open>A backup step that fails\<close>

text \<open>
  A backup step that returns \<open>False\<close> (a copy raised inside the \<open>try\<close>). Without force
  mode either puller returns \<open>False\<close> at once, in the world the backup step left, where
  the live directories, the restart count, the log and the reports are as before the run.
\<close>

lemma backup_returns_false_aborts:
  assumes "fst (backup_current e w) = Inr False"
  shows "pull_and_deploy e False w = (Inr False, snd (backup_current e w))"
    and "api_available e \<Longrightarrow>
         api_pull_and_deploy e False w = (Inr False, snd (backup_current e w))"
    and "wazuh_rules_dir (snd (backup_current e w)) = wazuh_rules_dir w"
    and "wazuh_decoders_dir (snd (backup_current e w)) = wazuh_decoders_dir w"
    and "restarts (snd (backup_current e w)) = restarts w"
    and "log_file (snd (backup_current e w)) = log_file w"
    and "reports (snd (backup_current e w)) = reports w"
proof -
  obtain w1 where b: "backup_current e w = (Inr False, w1)"
    using assms by (cases "backup_current e w") auto
  show "pull_and_deploy e False w = (Inr False, snd (backup_current e w))"
    using b by (simp add: pull_and_deploy_def)
  show "api_available e \<Longrightarrow>
      api_pull_and_deploy e False w = (Inr False, snd (backup_current e w))"
    using b by (simp add: api_pull_and_deploy_def)
qed (simp_all add: backup_current_frame)

text \<open>
  With force mode the run goes on to the next step: the repository puller to the git step
  and then the deploy step, the API puller to the download.
\<close>

lemma backup_returns_false_forced:
  assumes "fst (backup_current e w) = Inr False"
  shows "pull_and_deploy e True w =
           (if git_ok e then deploy_and_restart e (snd (backup_current e w))
            else (Inr False, snd (backup_current e w)))"
    and "api_available e \<Longrightarrow> download_ok e \<Longrightarrow> extract_ok e \<Longrightarrow>
         api_pull_and_deploy e True w =
           (Inr (fst (api_deploy_and_restart e (snd (backup_current e w)))),
            snd (api_deploy_and_restart e (snd (backup_current e w))))"
proof -
  obtain w1 where b: "backup_current e w = (Inr False, w1)"
    using assms by (cases "backup_current e w") auto
  show "pull_and_deploy e True w =
           (if git_ok e then deploy_and_restart e (snd (backup_current e w))
            else (Inr False, snd (backup_current e w)))"
    using b by (simp add: pull_and_deploy_def clone_or_pull_repo_def)
  show "api_available e \<Longrightarrow> download_ok e \<Longrightarrow> extract_ok e \<Longrightarrow>
         api_pull_and_deploy e True w =
           (Inr (fst (api_deploy_and_restart e (snd (backup_current e w)))),
            snd (api_deploy_and_restart e (snd (backup_current e w))))"
    using b by (simp add: api_pull_and_deploy_def split_beta)
qed

text \<open>
  So a forced run of the repository puller in which the backup step returned \<open>False\<close>
  and every later step succeeds deploys the fetched files and returns \<open>True\<close>.
\<close>

lemma forced_run_deploys:
  assumes "fst (backup_current e w) = Inr False" and "git_ok e" and "deploy_fault e = None"
    and "\<forall>n. restart_ok e n" and "\<forall>n. log_ok e n"
  shows "fst (pull_and_deploy e True w) = Inr True"
    and "wazuh_rules_dir (snd (pull_and_deploy e True w)) =
           Some (install (tree_rules e) (mkdir_p (wazuh_rules_dir w)))"
    and "wazuh_decoders_dir (snd (pull_and_deploy e True w)) =
           Some (install (tree_decoders e) (mkdir_p (wazuh_decoders_dir w)))"
  using assms(2-5) backup_current_frame(1,2)[of e w]
  by (simp_all add: backup_returns_false_forced(1)[OF assms(1)] deploy_and_restart_def
        deploy_files_ok restart_wazuh_def log_success_def puller_log_deployment_def)

text \<open>
  Claim C6, at a backup directory that cannot be created. \<open>backup_current\<close> creates the
  backup directory before its \<open>try\<close>, so this failure of the backup step is no returned
  \<open>False\<close> but an exception. In a forced run of either puller the exception leaves
  \<open>pull_and_deploy\<close> with the world untouched: the run does not go on and nothing is
  deployed. For comparison, the forced run in which the backup step fails later, at the
  copy of the rules directory, does go on: it returns \<open>True\<close> with the new rule file in
  place.
\<close>

theorem forced_run_stops_at_backup_mkdir:
  "fst (backup_current (sample_env\<lparr>backup_mkdir_ok := False\<rparr>) sample_world) = Inl OSError \<and>
   pull_and_deploy (sample_env\<lparr>backup_mkdir_ok := False\<rparr>) True sample_world =
     (Inl OSError, sample_world) \<and>
   api_pull_and_deploy (sample_env\<lparr>backup_mkdir_ok := False\<rparr>) True sample_world =
     (Inl OSError, sample_world) \<and>
   fst (backup_current (sample_env\<lparr>backup_rules_copy := CopyFailed None\<rparr>) sample_world) =
     Inr False \<and>
   fst (pull_and_deploy (sample_env\<lparr>backup_rules_copy := CopyFailed None\<rparr>) True sample_world) =
     Inr True \<and>
   wazuh_rules_dir
     (snd (pull_and_deploy (sample_env\<lparr>backup_rules_copy := CopyFailed None\<rparr>) True
        sample_world)) =
     Some [(''local.txt'', ''T''), (''new.xml'', ''B'')]"
  by (simp add: run_defs api_pull_and_deploy_def)

subsection \<open>The deploy step of the API puller\<close>

lemma api_deploy_rules_name_error:
  assumes "tree_rules e = Some s" and "glob_xml s \<noteq> []"
    and "deploy_fault e = None \<or>
         (\<exists>k. deploy_fault e = Some k \<and> length (glob_opt (wazuh_rules_dir w)) \<le> k)"
  shows "api_deploy_files e w =
     (Inl NameError,
      w\<lparr>wazuh_rules_dir := map_option (filter (\<lambda>f. \<not> is_xml (fst f))) (wazuh_rules_dir w)\<rparr>)"
proof -
  let ?L = "wazuh_rules_dir w"
  from assms(3) have ok: "deploy_fault e = None \<or>
      (\<exists>k. deploy_fault e = Some k \<and> length (map fst (glob_opt ?L)) \<le> k)"
    by simp
  have keep: "filter (\<lambda>f. fst f \<notin> set (map fst (glob_opt ?L))) (mkdir_p ?L) =
        filter (\<lambda>f. \<not> is_xml (fst f)) (mkdir_p ?L)"
    using clear_glob[of "mkdir_p ?L"]
    by (cases ?L) (simp_all add: glob_opt_def mkdir_p_def)
  have cl: "clear_xml (map fst (glob_opt ?L)) (deploy_fault e) (mkdir_p ?L) =
     (None, map_option (\<lambda>k. k - length (map fst (glob_opt ?L))) (deploy_fault e),
      filter (\<lambda>f. \<not> is_xml (fst f)) (mkdir_p ?L))"
    unfolding clear_xml_ok[OF ok] keep ..
  have live: "map_option (\<lambda>_. filter (\<lambda>f. \<not> is_xml (fst f)) (mkdir_p ?L)) ?L =
        map_option (filter (\<lambda>f. \<not> is_xml (fst f))) ?L"
    by (cases ?L) (simp_all add: mkdir_p_def)
  have cp: "api_copy_xml (glob_xml s) = (Some NameError, 0)"
    using assms(2) by (simp add: api_copy_xml_def split: list.splits)
  have "api_deploy_category (tree_rules e) (deploy_fault e) ?L =
     (Some NameError, map_option (\<lambda>k. k - length (map fst (glob_opt ?L))) (deploy_fault e),
      map_option (filter (\<lambda>f. \<not> is_xml (fst f))) ?L, 0)"
    using cl cp live by (simp add: api_deploy_category_def assms(1))
  then show ?thesis by (simp add: api_deploy_files_def)
qed

text \<open>
  Claim C2. Let a run of the API puller reach its deploy step (the API answered, the
  backup step returned \<open>True\<close> or, in force mode, \<open>False\<close>, the package was downloaded
  and unpacked) with a package whose \<open>rules\<close> directory holds at least one XML file, and
  let no deletion in the live rules directory fail. Then \<open>deploy_files\<close> raises
  \<open>NameError\<close>, and the run returns \<open>False\<close> after one attempt to report a failure
  with zero files and the text of the error. It leaves the live rules directory with
  every XML file deleted and its other files as they were, the live decoders directory
  untouched, and the consuming process not restarted: nothing is rolled back.
\<close>

theorem api_deploy_empties_live_rules:
  assumes "api_available e"
    and "fst (backup_current e w) = Inr True \<or>
         (force \<and> fst (backup_current e w) = Inr False)"
    and "download_ok e" and "extract_ok e"
    and "tree_rules e = Some s" and "glob_xml s \<noteq> []"
    and "deploy_fault e = None \<or>
         (\<exists>k. deploy_fault e = Some k \<and> length (glob_opt (wazuh_rules_dir w)) \<le> k)"
  shows "fst (api_deploy_files e (snd (backup_current e w))) = Inl NameError \<and>
         fst (api_pull_and_deploy e force w) = Inr False \<and>
         wazuh_rules_dir (snd (api_pull_and_deploy e force w)) =
           map_option (filter (\<lambda>f. \<not> is_xml (fst f))) (wazuh_rules_dir w) \<and>
         glob_opt (wazuh_rules_dir (snd (api_pull_and_deploy e force w))) = [] \<and>
         wazuh_decoders_dir (snd (api_pull_and_deploy e force w)) = wazuh_decoders_dir w \<and>
         restarts (snd (api_pull_and_deploy e force w)) = restarts w \<and>
         report_calls (snd (api_pull_and_deploy e force w)) = Suc (report_calls w) \<and>
         reports (snd (api_pull_and_deploy e force w)) =
           reports w @
             (if report_ok e (report_calls w)
              then [\<lparr>le_success = False, le_rules = 0, le_decoders = 0,
                     le_error = error_text e NameError\<rparr>]
              else [])"
proof -
  obtain b w1 where b: "backup_current e w = (b, w1)" by (cases "backup_current e w")
  have w1: "wazuh_rules_dir w1 = wazuh_rules_dir w" "wazuh_decoders_dir w1 = wazuh_decoders_dir w"
    "restarts w1 = restarts w" "report_calls w1 = report_calls w" "reports w1 = reports w"
    using backup_current_frame(1,2,3,6,7)[of e w] b by simp_all
  from assms(7) w1(1) have ok: "deploy_fault e = None \<or>
      (\<exists>k. deploy_fault e = Some k \<and> length (glob_opt (wazuh_rules_dir w1)) \<le> k)"
    by simp
  note d = api_deploy_rules_name_error[OF assms(5,6) ok]
  have run: "api_pull_and_deploy e force w =
      (Inr (fst (api_deploy_and_restart e w1)), snd (api_deploy_and_restart e w1))"
    using b assms(1-4) by (auto simp: api_pull_and_deploy_def split_beta)
  have empty: "glob_opt (map_option (filter (\<lambda>f. \<not> is_xml (fst f))) (wazuh_rules_dir w)) = []"
    by (cases "wazuh_rules_dir w") (simp_all add: glob_opt_def glob_xml_def)
  show ?thesis
    unfolding run using b d w1 empty
    by (simp add: api_deploy_and_restart_def report_deployment_def)
qed

text \<open>
  The sample run through the API puller: the old rule file is gone, the new one never
  arrives, the file that is no rule stays.
\<close>

theorem api_deploy_empties_live_rules_witness:
  "fst (api_deploy_files sample_env (snd (backup_current sample_env sample_world))) =
     Inl NameError \<and>
   fst (api_pull_and_deploy sample_env False sample_world) = Inr False \<and>
   wazuh_rules_dir (snd (api_pull_and_deploy sample_env False sample_world)) =
     Some [(''local.txt'', ''T'')] \<and>
   wazuh_decoders_dir (snd (api_pull_and_deploy sample_env False sample_world)) =
     Some [(''dec.xml'', ''D'')] \<and>
   restarts (snd (api_pull_and_deploy sample_env False sample_world)) = 0 \<and>
   report_calls (snd (api_pull_and_deploy sample_env False sample_world)) = 1 \<and>
   reports (snd (api_pull_and_deploy sample_env False sample_world)) =
     [\<lparr>le_success = False, le_rules = 0, le_decoders = 0, le_error = ''error''\<rparr>]"
proof -
  have h: "api_available sample_env"
    "fst (backup_current sample_env sample_world) = Inr True \<or>
       (False \<and> fst (backup_current sample_env sample_world) = Inr False)"
    "download_ok sample_env" "extract_ok sample_env"
    "tree_rules sample_env = Some [(''new.xml'', ''B'')]"
    "glob_xml [(''new.xml'', ''B'')] \<noteq> []"
    "deploy_fault sample_env = None \<or>
       (\<exists>k. deploy_fault sample_env = Some k \<and>
            length (glob_opt (wazuh_rules_dir sample_world)) \<le> k)"
    by (simp_all add: api_defs)
  from api_deploy_empties_live_rules[OF h] show ?thesis
    by (simp add: sample_world_def sample_env_def is_xml_def)
qed

subsection \<open>A record of the outcome that cannot be written\<close>

text \<open>
  In the API puller the outcome of a run, the live directories it leaves and the number
  of restarts are the same whatever becomes of the reports.
\<close>

lemma api_report_failure_harmless:
  "fst (api_pull_and_deploy (e\<lparr>report_ok := f\<rparr>) force w) = fst (api_pull_and_deploy e force w) \<and>
   wazuh_rules_dir (snd (api_pull_and_deploy (e\<lparr>report_ok := f\<rparr>) force w)) =
     wazuh_rules_dir (snd (api_pull_and_deploy e force w)) \<and>
   wazuh_decoders_dir (snd (api_pull_and_deploy (e\<lparr>report_ok := f\<rparr>) force w)) =
     wazuh_decoders_dir (snd (api_pull_and_deploy e force w)) \<and>
   restarts (snd (api_pull_and_deploy (e\<lparr>report_ok := f\<rparr>) force w)) =
     restarts (snd (api_pull_and_deploy e force w))"
proof -
  have bc: "backup_current (e\<lparr>report_ok := f\<rparr>) w = backup_current e w"
    by (simp add: backup_current_def Let_def cong: prod.case_cong if_cong)
  have df: "\<And>w. api_deploy_files (e\<lparr>report_ok := f\<rparr>) w = api_deploy_files e w"
    by (simp add: api_deploy_files_def cong: prod.case_cong option.case_cong)
  have rs: "\<And>w. restart_wazuh (e\<lparr>report_ok := f\<rparr>) w = restart_wazuh e w"
    by (simp add: restart_wazuh_def)
  have rep: "\<And>e entry w.
     wazuh_rules_dir (snd (report_deployment e entry w)) = wazuh_rules_dir w \<and>
     wazuh_decoders_dir (snd (report_deployment e entry w)) = wazuh_decoders_dir w \<and>
     restarts (snd (report_deployment e entry w)) = restarts w"
    by (simp add: report_deployment_def)
  have "\<And>w.
   fst (api_deploy_and_restart (e\<lparr>report_ok := f\<rparr>) w) = fst (api_deploy_and_restart e w) \<and>
   wazuh_rules_dir (snd (api_deploy_and_restart (e\<lparr>report_ok := f\<rparr>) w)) =
     wazuh_rules_dir (snd (api_deploy_and_restart e w)) \<and>
   wazuh_decoders_dir (snd (api_deploy_and_restart (e\<lparr>report_ok := f\<rparr>) w)) =
     wazuh_decoders_dir (snd (api_deploy_and_restart e w)) \<and>
   restarts (snd (api_deploy_and_restart (e\<lparr>report_ok := f\<rparr>) w)) =
     restarts (snd (api_deploy_and_restart e w))"
    by (simp add: api_deploy_and_restart_def df rs rep split: prod.splits sum.splits)
  then show ?thesis
    by (simp add: api_pull_and_deploy_def bc split_beta split: prod.splits sum.splits)
qed

text \<open>
  Claim C7, at a log file that cannot be written. In the repository puller the sample run
  succeeds: it returns \<open>True\<close>, leaves the new rule file in place and restarts the consumer
  once. The same run with a log file that refuses every write does not: the failing write
  of the success line is handled as a failed deployment, the live rules directory is
  rolled back to the old files, the consumer is restarted a second time, and the second
  failing write leaves the method as an exception.
\<close>

theorem log_failure_rolls_back_success:
  "fst (pull_and_deploy sample_env False sample_world) = Inr True \<and>
   wazuh_rules_dir (snd (pull_and_deploy sample_env False sample_world)) =
     Some [(''local.txt'', ''T''), (''new.xml'', ''B'')] \<and>
   restarts (snd (pull_and_deploy sample_env False sample_world)) = 1 \<and>
   fst (pull_and_deploy (sample_env\<lparr>log_ok := (\<lambda>n. False)\<rparr>) False sample_world) =
     Inl OSError \<and>
   wazuh_rules_dir
     (snd (pull_and_deploy (sample_env\<lparr>log_ok := (\<lambda>n. False)\<rparr>) False sample_world)) =
     Some [(''old.xml'', ''A''), (''local.txt'', ''T'')] \<and>
   restarts (snd (pull_and_deploy (sample_env\<lparr>log_ok := (\<lambda>n. False)\<rparr>) False sample_world)) = 2"
  by (simp add: run_defs)

end
